theory Spec2Isabelle
  imports Main "HOL-Library.Word"
begin

unbundle bit_operations_syntax

section \<open>Data model of the local video device (XLocalVideoDevice.cpp)\<close>

type_synonym byte = "8 word"
type_synonym uint32_t = "32 word"
type_synonym HRESULT = int

text \<open>The error codes returned across the facade (the misspelling of
  \<open>ErrorDeivceNotReady\<close> is the source's).\<close>

datatype XErrorCode =
    SuccessCode
  | ErrorFailed
  | ErrorNullParameter
  | ErrorInvalidConfiguration
  | ErrorInvalidProperty
  | ErrorUnsupportedProperty
  | ErrorConfigurationNotSupported
  | ErrorDeivceNotReady

text \<open>Modelled from the spec: \<open>XDeviceCapabilities\<close> is declared in
  XDeviceCapabilities.hpp, which is not among the sources. The spec gives it the fields
  width, height, bit depth, fps and the fps bounds, and an equality that compares all of
  them; the constructor call in \<open>GetPinCapabilitiesAndConfigureIt\<close> gives the order
  (the rate of the shortest frame interval is the maximum frame rate).\<close>

record XDeviceCapabilities =
  Width :: int
  Height :: int
  BitCount :: int
  AverageFrameRate :: int
  MaximumFrameRate :: int
  MinimumFrameRate :: int

text \<open>Modelled from the spec: the default-constructed capability. The enumeration loop
  rejects a capability that was never assigned by testing \<open>Width( ) != 0\<close>, so the
  default has width zero; the other fields are taken as zero too.\<close>

definition XDeviceCapabilities_default :: XDeviceCapabilities where
  "XDeviceCapabilities_default =
     \<lparr>Width = 0, Height = 0, BitCount = 0, AverageFrameRate = 0,
      MaximumFrameRate = 0, MinimumFrameRate = 0\<rparr>"

text \<open>Modelled from the spec: \<open>XDevicePinInfo\<close> (XDevicePinInfo.hpp, not among the
  sources) is an index and a connector type; type 0 is \<open>PinType::Unknown\<close>.\<close>

record XDevicePinInfo =
  pinIndex :: int
  pinType :: int

definition PinType_Unknown :: int where
  "PinType_Unknown = 0"

definition XDevicePinInfo_default :: XDevicePinInfo where
  "XDevicePinInfo_default = \<lparr>pinIndex = 0, pinType = PinType_Unknown\<rparr>"

text \<open>\<open>enum class XVideoProperty\<close> of XLocalVideoDevice.hpp. An enum class holds any
  value of its underlying type \<open>int\<close>, which is why the property functions check the
  range; the model keeps the underlying integer.\<close>

type_synonym XVideoProperty = int

definition XVideoProperty_Brightness :: XVideoProperty where "XVideoProperty_Brightness = 0"
definition XVideoProperty_Contrast :: XVideoProperty where "XVideoProperty_Contrast = 1"
definition XVideoProperty_Hue :: XVideoProperty where "XVideoProperty_Hue = 2"
definition XVideoProperty_Saturation :: XVideoProperty where "XVideoProperty_Saturation = 3"
definition XVideoProperty_Sharpness :: XVideoProperty where "XVideoProperty_Sharpness = 4"
definition XVideoProperty_Gamma :: XVideoProperty where "XVideoProperty_Gamma = 5"
definition XVideoProperty_ColorEnable :: XVideoProperty where "XVideoProperty_ColorEnable = 6"
definition XVideoProperty_WhiteBalance :: XVideoProperty where "XVideoProperty_WhiteBalance = 7"
definition XVideoProperty_BacklightCompensation :: XVideoProperty where
  "XVideoProperty_BacklightCompensation = 8"
definition XVideoProperty_Gain :: XVideoProperty where "XVideoProperty_Gain = 9"

text \<open>The camera-domain property identifiers; \<open>enum class XCameraProperty\<close> is not
  in the sources, its numbering is the indexing of \<open>nativeCameraProperties\<close>.\<close>

type_synonym XCameraProperty = int

definition XCameraProperty_Pan :: XCameraProperty where "XCameraProperty_Pan = 0"
definition XCameraProperty_Focus :: XCameraProperty where "XCameraProperty_Focus = 6"

text \<open>The platform's property identifiers, in the order of the two tables.\<close>

datatype VideoProcAmpProperty =
    VideoProcAmp_Brightness
  | VideoProcAmp_Contrast
  | VideoProcAmp_Hue
  | VideoProcAmp_Saturation
  | VideoProcAmp_Sharpness
  | VideoProcAmp_Gamma
  | VideoProcAmp_ColorEnable
  | VideoProcAmp_WhiteBalance
  | VideoProcAmp_BacklightCompensation
  | VideoProcAmp_Gain

definition nativeVideoProperties :: "VideoProcAmpProperty list" where
  "nativeVideoProperties =
     [VideoProcAmp_Brightness, VideoProcAmp_Contrast, VideoProcAmp_Hue,
      VideoProcAmp_Saturation, VideoProcAmp_Sharpness, VideoProcAmp_Gamma,
      VideoProcAmp_ColorEnable, VideoProcAmp_WhiteBalance,
      VideoProcAmp_BacklightCompensation, VideoProcAmp_Gain]"

datatype CameraControlProperty =
    CameraControl_Pan
  | CameraControl_Tilt
  | CameraControl_Roll
  | CameraControl_Zoom
  | CameraControl_Exposure
  | CameraControl_Iris
  | CameraControl_Focus

definition nativeCameraProperties :: "CameraControlProperty list" where
  "nativeCameraProperties =
     [CameraControl_Pan, CameraControl_Tilt, CameraControl_Roll, CameraControl_Zoom,
      CameraControl_Exposure, CameraControl_Iris, CameraControl_Focus]"

text \<open>Platform constants (strmif.h, winerror.h): the two flag values passed to and
  returned by the property interfaces, and the result code of an unsupported property,
  0x80070490 read as a signed 32-bit value.\<close>

definition VideoProcAmp_Flags_Auto :: int where "VideoProcAmp_Flags_Auto = 1"
definition VideoProcAmp_Flags_Manual :: int where "VideoProcAmp_Flags_Manual = 2"
definition CameraControl_Flags_Auto :: int where "CameraControl_Flags_Auto = 1"
definition CameraControl_Flags_Manual :: int where "CameraControl_Flags_Manual = 2"
definition E_PROP_ID_UNSUPPORTED :: HRESULT where "E_PROP_ID_UNSUPPORTED = - 2147023728"

definition SUCCEEDED :: "HRESULT \<Rightarrow> bool" where
  "SUCCEEDED hr = (0 \<le> hr)"

definition FAILED :: "HRESULT \<Rightarrow> bool" where
  "FAILED hr = (hr < 0)"

text \<open>\<open>typedef pair<uint32_t, bool> PropValue\<close>, and \<open>std::map\<close> as an association
  list kept in key order without duplicate keys: the order in which the range-for of
  \<open>RunVideo\<close> visits the entries.\<close>

type_synonym PropValue = "uint32_t \<times> bool"

fun map_assign :: "int \<Rightarrow> 'v \<Rightarrow> (int \<times> 'v) list \<Rightarrow> (int \<times> 'v) list" where
  "map_assign k v [] = [(k, v)]"
| "map_assign k v ((k', v') # m) =
     (if k < k' then (k, v) # (k', v') # m
      else if k = k' then (k, v) # m
      else (k', v') # map_assign k v m)"

text \<open>The private state \<open>XLocalVideoDeviceData\<close>. A pointer is an optional handle
  (\<open>None\<close> is \<open>nullptr\<close>), a manual-reset event is its signalled flag, the thread
  object is its running flag. The two mutexes are not modelled: every operation below runs
  under its scoped lock and is one atomic step.\<close>

record XLocalVideoDeviceData =
  DeviceMoniker :: string
  Resolution :: XDeviceCapabilities
  RequestedFps :: uint32_t
  VideoInput :: XDevicePinInfo
  NeedToSetVideoInput :: bool
  Capabilities :: "XDeviceCapabilities list"
  VideoPins :: "XDevicePinInfo list"
  IsCrossbarAvailable :: bool
  InfoCollectedEvent :: bool
  Listener :: "nat option"
  ExitEvent :: bool
  BackgroundThread :: bool
  FramesCounter :: uint32_t
  DeviceIsRunningEvent :: bool
  DeviceIsRunning :: bool
  VideoProcAmp :: "nat option"
  CameraControl :: "nat option"
  VideoPropertiesToSet :: "(XVideoProperty \<times> PropValue) list"
  CameraPropertiesToSet :: "(XCameraProperty \<times> PropValue) list"

definition XLocalVideoDeviceData_ctor :: "string \<Rightarrow> XLocalVideoDeviceData" where
  "XLocalVideoDeviceData_ctor deviceMoniker =
     \<lparr>DeviceMoniker = deviceMoniker, Resolution = XDeviceCapabilities_default,
      RequestedFps = 0, VideoInput = XDevicePinInfo_default, NeedToSetVideoInput = False,
      Capabilities = [], VideoPins = [], IsCrossbarAvailable = False,
      InfoCollectedEvent = False, Listener = None, ExitEvent = False,
      BackgroundThread = False, FramesCounter = 0, DeviceIsRunningEvent = False,
      DeviceIsRunning = False, VideoProcAmp = None, CameraControl = None,
      VideoPropertiesToSet = [], CameraPropertiesToSet = []\<rparr>"

section \<open>The facade operations\<close>

definition IsRunning :: "XLocalVideoDeviceData \<Rightarrow> bool" where
  "IsRunning d = BackgroundThread d"

definition IsDeviceRunning :: "XLocalVideoDeviceData \<Rightarrow> bool" where
  "IsDeviceRunning d = DeviceIsRunning d"

definition FramesReceived :: "XLocalVideoDeviceData \<Rightarrow> uint32_t" where
  "FramesReceived d = FramesCounter d"

text \<open>\<open>Start\<close>. The thread library is outside the sources: \<open>threadCreated\<close> is
  what \<open>BackgroundThread.Create\<close> returns, and a created thread is running.\<close>

definition Start :: "bool \<Rightarrow> XLocalVideoDeviceData \<Rightarrow> XErrorCode \<times> XLocalVideoDeviceData" where
  "Start threadCreated d =
     (if DeviceMoniker d = [] then (ErrorInvalidConfiguration, d)
      else if IsRunning d then (SuccessCode, d)
      else
        let d' = d\<lparr>FramesCounter := 0, ExitEvent := False, InfoCollectedEvent := False\<rparr>
        in if threadCreated then (SuccessCode, d'\<lparr>BackgroundThread := True\<rparr>)
           else (ErrorFailed, d'))"

definition SetDeviceMoniker :: "string \<Rightarrow> XLocalVideoDeviceData \<Rightarrow> bool \<times> XLocalVideoDeviceData" where
  "SetDeviceMoniker moniker d =
     (if \<not> IsRunning d then
        (True, d\<lparr>DeviceMoniker := moniker,
                 Capabilities := [], VideoPins := [], IsCrossbarAvailable := False,
                 InfoCollectedEvent := False,
                 Resolution := XDeviceCapabilities_default,
                 VideoInput := XDevicePinInfo_default,
                 RequestedFps := 0\<rparr>)
      else (False, d))"

definition SetResolution ::
  "XDeviceCapabilities \<Rightarrow> uint32_t \<Rightarrow> XLocalVideoDeviceData \<Rightarrow> bool \<times> XLocalVideoDeviceData" where
  "SetResolution resolution requestedFps d =
     (if \<not> IsRunning d then
        (True, d\<lparr>Resolution := resolution, RequestedFps := requestedFps\<rparr>)
      else (False, d))"

definition SetVideoInput :: "XDevicePinInfo \<Rightarrow> XLocalVideoDeviceData \<Rightarrow> XLocalVideoDeviceData" where
  "SetVideoInput input d = d\<lparr>VideoInput := input, NeedToSetVideoInput := True\<rparr>"

definition SetListener :: "nat option \<Rightarrow> XLocalVideoDeviceData \<Rightarrow> XLocalVideoDeviceData" where
  "SetListener listener d = d\<lparr>Listener := listener\<rparr>"

definition SignalToStop :: "XLocalVideoDeviceData \<Rightarrow> XLocalVideoDeviceData" where
  "SignalToStop d = (if IsRunning d then d\<lparr>ExitEvent := True\<rparr> else d)"

text \<open>\<open>NotifyError\<close>: the message the listener receives, if there is a listener.\<close>

definition NotifyError :: "XLocalVideoDeviceData \<Rightarrow> string \<Rightarrow> bool \<Rightarrow> string list" where
  "NotifyError d errorMessage fatal =
     (if Listener d \<noteq> None then [(if fatal then ''Fatal: '' else '''') @ errorMessage]
      else [])"

section \<open>Video properties\<close>

text \<open>The hardware behind \<open>IAMVideoProcAmp\<close> is a state \<open>'h\<close> and the two methods
  the code calls: \<open>vpaSet hw property value flags\<close> gives the result code and the
  hardware afterwards, \<open>vpaGet hw property\<close> the result code, the value and the flags.\<close>

definition SetVideoProperty ::
  "('h \<Rightarrow> VideoProcAmpProperty \<Rightarrow> uint32_t \<Rightarrow> int \<Rightarrow> HRESULT \<times> 'h) \<Rightarrow> 'h \<Rightarrow>
   XLocalVideoDeviceData \<Rightarrow> XVideoProperty \<Rightarrow> uint32_t \<Rightarrow> bool \<Rightarrow>
   XErrorCode \<times> XLocalVideoDeviceData \<times> 'h" where
  "SetVideoProperty vpaSet hw d property val automatic =
     (if property < XVideoProperty_Brightness \<or> property > XVideoProperty_Gain then
        (ErrorInvalidProperty, d, hw)
      else if \<not> DeviceIsRunning d then
        (SuccessCode,
         d\<lparr>VideoPropertiesToSet := map_assign property (val, automatic) (VideoPropertiesToSet d)\<rparr>,
         hw)
      else if VideoProcAmp d = None then (ErrorConfigurationNotSupported, d, hw)
      else
        let (hr, hw') = vpaSet hw (nativeVideoProperties ! nat property) val
                          (if automatic then VideoProcAmp_Flags_Auto else VideoProcAmp_Flags_Manual)
        in if FAILED hr then
             (if hr = E_PROP_ID_UNSUPPORTED then ErrorUnsupportedProperty else ErrorFailed, d, hw')
           else (SuccessCode, d, hw'))"

text \<open>\<open>GetVideoProperty\<close>. The two out-pointers are their non-null flags; what is
  written through them is returned (\<open>None\<close> where nothing is written).\<close>

definition GetVideoProperty ::
  "('h \<Rightarrow> VideoProcAmpProperty \<Rightarrow> HRESULT \<times> uint32_t \<times> int) \<Rightarrow> 'h \<Rightarrow>
   XLocalVideoDeviceData \<Rightarrow> XVideoProperty \<Rightarrow> bool \<Rightarrow> bool \<Rightarrow>
   XErrorCode \<times> uint32_t option \<times> bool option" where
  "GetVideoProperty vpaGet hw d property valuePtr automaticPtr =
     (if \<not> valuePtr then (ErrorNullParameter, None, None)
      else if property < XVideoProperty_Brightness \<or> property > XVideoProperty_Gain then
        (ErrorInvalidProperty, None, None)
      else if \<not> DeviceIsRunning d then (ErrorDeivceNotReady, None, None)
      else if VideoProcAmp d = None then (ErrorConfigurationNotSupported, None, None)
      else
        let (hr, propValue, propFlags) = vpaGet hw (nativeVideoProperties ! nat property)
        in if FAILED hr then
             (if hr = E_PROP_ID_UNSUPPORTED then ErrorUnsupportedProperty else ErrorFailed,
              None, None)
           else (SuccessCode, Some propValue,
                 if automaticPtr then Some (propFlags = VideoProcAmp_Flags_Auto) else None))"

section \<open>The frame converter (SampleGrabber::BufferCB)\<close>

text \<open>What the C++ leaves undefined is a fault of the model: a read or write outside a
  buffer, the division by a zero height, the use of an image that was not allocated.\<close>

datatype fault = OutOfBounds | DivisionByZero | NullPointer

definition sbind :: "fault + 'a \<Rightarrow> ('a \<Rightarrow> fault + 'b) \<Rightarrow> fault + 'b" where
  "sbind m f = (case m of Inl e \<Rightarrow> Inl e | Inr x \<Rightarrow> f x)"

text \<open>C's integer division truncates towards zero.\<close>

definition c_div :: "int \<Rightarrow> int \<Rightarrow> int" where
  "c_div a b = (if (a < 0) = (b < 0) then \<bar>a\<bar> div \<bar>b\<bar> else - (\<bar>a\<bar> div \<bar>b\<bar>))"

definition c_mod :: "int \<Rightarrow> int \<Rightarrow> int" where
  "c_mod a b = a - b * c_div a b"

text \<open>A buffer is the list of its bytes and a pointer into it is an offset from its
  start, an \<open>int\<close> because the code computes row pointers by subtraction.\<close>

definition load_byte :: "byte list \<Rightarrow> int \<Rightarrow> fault + byte" where
  "load_byte mem p =
     (if 0 \<le> p \<and> p < int (length mem) then Inr (mem ! nat p) else Inl OutOfBounds)"

definition store_byte :: "byte list \<Rightarrow> int \<Rightarrow> byte \<Rightarrow> fault + byte list" where
  "store_byte mem p v =
     (if 0 \<le> p \<and> p < int (length mem) then Inr (mem[nat p := v]) else Inl OutOfBounds)"

text \<open>Modelled from the spec: the channel positions of an RGB24 pixel come from the image
  library's header, which is not among the sources. The converter is compiled in its
  non-BGRA branch and the spec has it swap the R and B channels of a BGR source: red first,
  blue last.\<close>

definition RedIndex :: int where "RedIndex = 0"
definition GreenIndex :: int where "GreenIndex = 1"
definition BlueIndex :: int where "BlueIndex = 2"

text \<open>The body of both per-pixel loops, in the order of its three assignments.\<close>

definition copy_pixel :: "byte list \<Rightarrow> int \<Rightarrow> int \<Rightarrow> byte list \<Rightarrow> fault + byte list" where
  "copy_pixel src srcRow dstRow dst =
     sbind (load_byte src (srcRow + 0)) (\<lambda>b.
     sbind (store_byte dst (dstRow + BlueIndex) b) (\<lambda>dst1.
     sbind (load_byte src (srcRow + 1)) (\<lambda>g.
     sbind (store_byte dst1 (dstRow + GreenIndex) g) (\<lambda>dst2.
     sbind (load_byte src (srcRow + 2)) (\<lambda>r.
     store_byte dst2 (dstRow + RedIndex) r)))))"

text \<open>\<open>for ( int i = 0; i < n; i++ ) body\<close>, for a count \<open>n\<close> that the body does not
  change: \<open>for_loop n i body\<close> runs the \<open>n\<close> iterations from index \<open>i\<close> on and
  stops at the first fault.\<close>

fun for_loop :: "nat \<Rightarrow> int \<Rightarrow> (int \<Rightarrow> 's \<Rightarrow> fault + 's) \<Rightarrow> 's \<Rightarrow> fault + 's" where
  "for_loop 0 i body s = Inr s"
| "for_loop (Suc n) i body s = sbind (body i s) (for_loop n (i + 1) body)"

text \<open>The SSSE3 intrinsics. A 128-bit register is the list of its 16 bytes, lowest first;
  \<open>_mm_set_epi8\<close> takes the highest byte first.\<close>

type_synonym m128i = "byte list"

definition mm_set_epi8 :: "int list \<Rightarrow> m128i" where
  "mm_set_epi8 es = rev (map word_of_int es)"

definition mm_shuffle_epi8 :: "m128i \<Rightarrow> m128i \<Rightarrow> m128i" where
  "mm_shuffle_epi8 a b = map (\<lambda>m. if bit m 7 then 0 else a ! unat (m AND 15)) b"

definition mm_or_si128 :: "m128i \<Rightarrow> m128i \<Rightarrow> m128i" where
  "mm_or_si128 a b = map2 (OR) a b"

definition mm_loadu_si128 :: "byte list \<Rightarrow> int \<Rightarrow> fault + m128i" where
  "mm_loadu_si128 mem p =
     (if 0 \<le> p \<and> p + 16 \<le> int (length mem) then Inr (take 16 (drop (nat p) mem))
      else Inl OutOfBounds)"

definition mm_storeu_si128 :: "byte list \<Rightarrow> int \<Rightarrow> m128i \<Rightarrow> fault + byte list" where
  "mm_storeu_si128 mem p v =
     (if 0 \<le> p \<and> p + 16 \<le> int (length mem)
      then Inr (take (nat p) mem @ v @ drop (nat p + 16) mem)
      else Inl OutOfBounds)"

definition swapIndeces_0 :: m128i where
  "swapIndeces_0 = mm_set_epi8 [-1, 12, 13, 14, 9, 10, 11, 6, 7, 8, 3, 4, 5, 0, 1, 2]"
definition swapIndeces_1 :: m128i where
  "swapIndeces_1 = mm_set_epi8 [15, -1, 11, 12, 13, 8, 9, 10, 5, 6, 7, 2, 3, 4, -1, 0]"
definition swapIndeces_2 :: m128i where
  "swapIndeces_2 = mm_set_epi8 [13, 14, 15, 10, 11, 12, 7, 8, 9, 4, 5, 6, 1, 2, 3, -1]"
definition chunk0IndecesFrom1 :: m128i where
  "chunk0IndecesFrom1 = mm_set_epi8 [1, -1, -1, -1, -1, -1, -1, -1, -1, -1, -1, -1, -1, -1, -1, -1]"
definition chunk2IndecesFrom1 :: m128i where
  "chunk2IndecesFrom1 = mm_set_epi8 [-1, -1, -1, -1, -1, -1, -1, -1, -1, -1, -1, -1, -1, -1, -1, 14]"
definition chunk1IndecesFrom0 :: m128i where
  "chunk1IndecesFrom0 = mm_set_epi8 [-1, -1, -1, -1, -1, -1, -1, -1, -1, -1, -1, -1, -1, -1, 15, -1]"
definition chunk1IndecesFrom2 :: m128i where
  "chunk1IndecesFrom2 = mm_set_epi8 [-1, 0, -1, -1, -1, -1, -1, -1, -1, -1, -1, -1, -1, -1, -1, -1]"

text \<open>The body of the loop over packs of 16 pixels: three loads, then three stores.\<close>

definition copy_pack :: "byte list \<Rightarrow> int \<Rightarrow> int \<Rightarrow> byte list \<Rightarrow> fault + byte list" where
  "copy_pack src srcRow dstRow dst =
     sbind (mm_loadu_si128 src srcRow) (\<lambda>chunk0.
     sbind (mm_loadu_si128 src (srcRow + 16)) (\<lambda>chunk1.
     sbind (mm_loadu_si128 src (srcRow + 32)) (\<lambda>chunk2.
     sbind (mm_storeu_si128 dst dstRow
              (mm_or_si128 (mm_shuffle_epi8 chunk0 swapIndeces_0)
                           (mm_shuffle_epi8 chunk1 chunk0IndecesFrom1))) (\<lambda>dst1.
     sbind (mm_storeu_si128 dst1 (dstRow + 16)
              (mm_or_si128
                 (mm_or_si128 (mm_shuffle_epi8 chunk1 swapIndeces_1)
                              (mm_shuffle_epi8 chunk0 chunk1IndecesFrom0))
                 (mm_shuffle_epi8 chunk2 chunk1IndecesFrom2))) (\<lambda>dst2.
     mm_storeu_si128 dst2 (dstRow + 32)
              (mm_or_si128 (mm_shuffle_epi8 chunk2 swapIndeces_2)
                           (mm_shuffle_epi8 chunk1 chunk2IndecesFrom1)))))))"

text \<open>One row of each path. The pointers \<open>srcRow\<close> and \<open>dstRow\<close> advance by 3 per
  pixel and by 48 per pack; the tail loop of the vector path goes on from where the packs
  ended.\<close>

definition scalar_row :: "int \<Rightarrow> byte list \<Rightarrow> int \<Rightarrow> int \<Rightarrow> byte list \<Rightarrow> fault + byte list" where
  "scalar_row width src srcRow dstRow dst =
     for_loop (nat width) 0 (\<lambda>x. copy_pixel src (srcRow + 3 * x) (dstRow + 3 * x)) dst"

definition vector_row :: "int \<Rightarrow> byte list \<Rightarrow> int \<Rightarrow> int \<Rightarrow> byte list \<Rightarrow> fault + byte list" where
  "vector_row width src srcRow dstRow dst =
     (let packs = c_div width 16; rem = c_mod width 16;
          srcRow' = srcRow + 48 * int (nat packs); dstRow' = dstRow + 48 * int (nat packs)
      in sbind (for_loop (nat packs) 0
                  (\<lambda>x. copy_pack src (srcRow + 48 * x) (dstRow + 48 * x)) dst)
           (for_loop (nat rem) 0 (\<lambda>x. copy_pixel src (srcRow' + 3 * x) (dstRow' + 3 * x))))"

text \<open>The conversion of a whole frame into the image data: the loop over the rows of
  either path, the destination starting at its last row and going up.\<close>

definition convert ::
  "bool \<Rightarrow> int \<Rightarrow> int \<Rightarrow> byte list \<Rightarrow> int \<Rightarrow> int \<Rightarrow> byte list \<Rightarrow> fault + byte list" where
  "convert ssse3 width height src srcStride dstStride data =
     (let dst = dstStride * (height - 1)
      in if \<not> ssse3 then
           for_loop (nat height) 0
             (\<lambda>y. scalar_row width src (y * srcStride) (dst - y * dstStride)) data
         else
           for_loop (nat height) 0
             (\<lambda>y. vector_row width src (y * srcStride) (dst - y * dstStride)) data)"

text \<open>The image the grabber owns and hands to the listener. \<open>XImage::Allocate\<close> is
  outside the sources: \<open>allocate width height\<close> is the image it returns, \<open>None\<close> the
  empty pointer of a failed allocation.\<close>

record XImage =
  imgWidth :: int
  imgHeight :: int
  imgStride :: int
  imgData :: "byte list"

record SampleGrabber =
  mImage :: "XImage option"
  mWidth :: int
  mHeight :: int
  mSSSE3supported :: bool

definition SetVideoSize :: "int \<Rightarrow> int \<Rightarrow> SampleGrabber \<Rightarrow> SampleGrabber" where
  "SetVideoSize width height g = g\<lparr>mWidth := width, mHeight := height\<rparr>"

text \<open>The image a callback converts into: the one it owns, if there is one of the
  frame's size, and a newly allocated one otherwise.\<close>

definition ensure_image :: "(int \<Rightarrow> int \<Rightarrow> XImage option) \<Rightarrow> SampleGrabber \<Rightarrow> XImage option" where
  "ensure_image allocate g =
     (case mImage g of
        None \<Rightarrow> allocate (mWidth g) (mHeight g)
      | Some img \<Rightarrow>
          if imgWidth img \<noteq> mWidth g \<or> imgHeight img \<noteq> mHeight g
          then allocate (mWidth g) (mHeight g) else Some img)"

text \<open>\<open>BufferCB\<close>: \<open>pBuffer\<close> is the delivered buffer (\<open>None\<close> the null pointer) and
  \<open>bufferLen\<close> its length. The result is the parent's state, the grabber's state and the
  image passed to \<open>OnNewImage\<close>, if it was called. The two \<open>assert\<close>s are compiled
  out of a release build; the division by a zero height is a fault.\<close>

definition BufferCB ::
  "(int \<Rightarrow> int \<Rightarrow> XImage option) \<Rightarrow> XLocalVideoDeviceData \<Rightarrow> SampleGrabber \<Rightarrow>
   byte list option \<Rightarrow> fault + (XLocalVideoDeviceData \<times> SampleGrabber \<times> XImage option)" where
  "BufferCB allocate parent g pBuffer =
     (let parent' = (if \<not> ExitEvent parent
                     then parent\<lparr>FramesCounter := FramesCounter parent + 1\<rparr> else parent)
      in case pBuffer of
           None \<Rightarrow> Inr (parent', g, None)
         | Some buffer \<Rightarrow>
             let bufferLen = int (length buffer)
             in if Listener parent \<noteq> None \<and> bufferLen \<noteq> 0 then
                  (case ensure_image allocate g of
                     None \<Rightarrow> Inl NullPointer
                   | Some img \<Rightarrow>
                       if mHeight g = 0 then Inl DivisionByZero
                       else
                         sbind (convert (mSSSE3supported g) (mWidth g) (mHeight g) buffer
                                  (c_div bufferLen (mHeight g)) (imgStride img) (imgData img))
                           (\<lambda>data. let img' = img\<lparr>imgData := data\<rparr>
                                   in Inr (parent', g\<lparr>mImage := Some img'\<rparr>, Some img')))
                else Inr (parent', g, None))"

text \<open>The three bytes of the pixel in column \<open>x\<close> of row \<open>y\<close> of a buffer with the
  given row stride.\<close>

definition pixel_at :: "byte list \<Rightarrow> int \<Rightarrow> int \<Rightarrow> int \<Rightarrow> byte list" where
  "pixel_at mem stride x y = take 3 (drop (nat (y * stride + 3 * x)) mem)"

section \<open>The deferred properties at the start of streaming (RunVideo)\<close>

definition SetCameraProperty ::
  "('h \<Rightarrow> CameraControlProperty \<Rightarrow> uint32_t \<Rightarrow> int \<Rightarrow> HRESULT \<times> 'h) \<Rightarrow> 'h \<Rightarrow>
   XLocalVideoDeviceData \<Rightarrow> XCameraProperty \<Rightarrow> uint32_t \<Rightarrow> bool \<Rightarrow>
   XErrorCode \<times> XLocalVideoDeviceData \<times> 'h" where
  "SetCameraProperty ccSet hw d property val automatic =
     (if property < XCameraProperty_Pan \<or> property > XCameraProperty_Focus then
        (ErrorInvalidProperty, d, hw)
      else if \<not> DeviceIsRunning d then
        (SuccessCode,
         d\<lparr>CameraPropertiesToSet := map_assign property (val, automatic) (CameraPropertiesToSet d)\<rparr>,
         hw)
      else if CameraControl d = None then (ErrorConfigurationNotSupported, d, hw)
      else
        let (hr, hw') = ccSet hw (nativeCameraProperties ! nat property) val
                          (if automatic then CameraControl_Flags_Auto else CameraControl_Flags_Manual)
        in if FAILED hr then
             (if hr = E_PROP_ID_UNSUPPORTED then ErrorUnsupportedProperty else ErrorFailed, d, hw')
           else (SuccessCode, d, hw'))"

text \<open>The two range-for loops: each entry goes through the property setter, whose
  success is and-ed into \<open>configOK\<close>. The loop state is the flag, the device state and
  the hardware.\<close>

fun apply_properties ::
  "('h \<Rightarrow> XLocalVideoDeviceData \<Rightarrow> int \<Rightarrow> uint32_t \<Rightarrow> bool \<Rightarrow> XErrorCode \<times> XLocalVideoDeviceData \<times> 'h) \<Rightarrow>
   (int \<times> PropValue) list \<Rightarrow> bool \<times> XLocalVideoDeviceData \<times> 'h \<Rightarrow>
   bool \<times> XLocalVideoDeviceData \<times> 'h" where
  "apply_properties setter [] st = st"
| "apply_properties setter (property # rest) (configOK, d, hw) =
     (let (ret, d', hw') = setter hw d (fst property) (fst (snd property)) (snd (snd property))
      in apply_properties setter rest (configOK \<and> ret = SuccessCode, d', hw'))"

text \<open>The block of \<open>RunVideo\<close> that runs under \<open>RunningSync\<close> once the graph is
  running, in its three parts: the device is marked running, the video properties are
  configured, the camera properties are configured. \<open>qiVideoProcAmp\<close> and
  \<open>qiCameraControl\<close> are what the two \<open>QueryInterface\<close> calls give: the result code
  and the pointer they store. The result is the device state, the hardware and the messages
  the listener received.\<close>

definition RunVideo_configureVideo ::
  "('h \<Rightarrow> VideoProcAmpProperty \<Rightarrow> uint32_t \<Rightarrow> int \<Rightarrow> HRESULT \<times> 'h) \<Rightarrow>
   HRESULT \<times> nat option \<Rightarrow> 'h \<Rightarrow> XLocalVideoDeviceData \<Rightarrow>
   XLocalVideoDeviceData \<times> 'h \<times> string list" where
  "RunVideo_configureVideo vpaSet qiVideoProcAmp hw d =
     (let d1 = d\<lparr>VideoProcAmp := snd qiVideoProcAmp\<rparr>
      in if SUCCEEDED (fst qiVideoProcAmp) \<and> VideoProcAmp d1 \<noteq> None then
           let (configOK, d', hw') =
                 apply_properties (SetVideoProperty vpaSet) (VideoPropertiesToSet d1)
                   (True, d1, hw);
               d'' = d'\<lparr>VideoPropertiesToSet := []\<rparr>
           in (d'', hw',
               if \<not> configOK then NotifyError d'' ''Failed applying video configuration'' False
               else [])
         else (d1, hw, []))"

definition RunVideo_configureCamera ::
  "('h \<Rightarrow> CameraControlProperty \<Rightarrow> uint32_t \<Rightarrow> int \<Rightarrow> HRESULT \<times> 'h) \<Rightarrow>
   HRESULT \<times> nat option \<Rightarrow> 'h \<Rightarrow> XLocalVideoDeviceData \<Rightarrow>
   XLocalVideoDeviceData \<times> 'h \<times> string list" where
  "RunVideo_configureCamera ccSet qiCameraControl hw d =
     (let d1 = d\<lparr>CameraControl := snd qiCameraControl\<rparr>
      in if SUCCEEDED (fst qiCameraControl) \<and> CameraControl d1 \<noteq> None then
           let (configOK, d', hw') =
                 apply_properties (SetCameraProperty ccSet) (CameraPropertiesToSet d1)
                   (True, d1, hw);
               d'' = d'\<lparr>CameraPropertiesToSet := []\<rparr>
           in (d'', hw',
               if \<not> configOK then NotifyError d'' ''Failed applying camera configuration'' False
               else [])
         else (d1, hw, []))"

definition RunVideo_deviceRunning ::
  "('h \<Rightarrow> VideoProcAmpProperty \<Rightarrow> uint32_t \<Rightarrow> int \<Rightarrow> HRESULT \<times> 'h) \<Rightarrow>
   ('h \<Rightarrow> CameraControlProperty \<Rightarrow> uint32_t \<Rightarrow> int \<Rightarrow> HRESULT \<times> 'h) \<Rightarrow>
   HRESULT \<times> nat option \<Rightarrow> HRESULT \<times> nat option \<Rightarrow> 'h \<Rightarrow> XLocalVideoDeviceData \<Rightarrow>
   XLocalVideoDeviceData \<times> 'h \<times> string list" where
  "RunVideo_deviceRunning vpaSet ccSet qiVideoProcAmp qiCameraControl hw d =
     (let d1 = d\<lparr>DeviceIsRunning := True, DeviceIsRunningEvent := True\<rparr>;
          (d2, hw2, errors2) = RunVideo_configureVideo vpaSet qiVideoProcAmp hw d1;
          (d3, hw3, errors3) = RunVideo_configureCamera ccSet qiCameraControl hw2 d2
      in (d3, hw3, errors2 @ errors3))"

text \<open>The spec's words for the same step, to compare the loop with: every entry is
  applied to the hardware, in the order of the map, and the successes are and-ed.\<close>

fun deferred_video_applied ::
  "('h \<Rightarrow> VideoProcAmpProperty \<Rightarrow> uint32_t \<Rightarrow> int \<Rightarrow> HRESULT \<times> 'h) \<Rightarrow>
   (XVideoProperty \<times> PropValue) list \<Rightarrow> bool \<times> 'h \<Rightarrow> bool \<times> 'h" where
  "deferred_video_applied vpaSet [] st = st"
| "deferred_video_applied vpaSet (entry # rest) (ok, hw) =
     (let (hr, hw') = vpaSet hw (nativeVideoProperties ! nat (fst entry)) (fst (snd entry))
                        (if snd (snd entry) then VideoProcAmp_Flags_Auto
                         else VideoProcAmp_Flags_Manual)
      in deferred_video_applied vpaSet rest (ok \<and> SUCCEEDED hr, hw'))"

text \<open>The keys of a deferred map that only \<open>SetVideoProperty\<close> has written: property
  ids from \<open>Brightness\<close> to \<open>Gain\<close>.\<close>

definition valid_video_keys :: "(XVideoProperty \<times> PropValue) list \<Rightarrow> bool" where
  "valid_video_keys m =
     list_all (\<lambda>entry. XVideoProperty_Brightness \<le> fst entry \<and> fst entry \<le> XVideoProperty_Gain) m"

section \<open>Format enumeration (GetPinCapabilitiesAndConfigureIt)\<close>

text \<open>What \<open>GetStreamCaps\<close> gives for one index: the result code, the media type
  (\<open>None\<close> a null pointer) and the frame-interval bounds. Of a media type the code reads
  the format tag and, through the video-info header, the size, the bit count and the
  average time per frame.\<close>

datatype FormatType = FORMAT_VideoInfo | FORMAT_VideoInfo2 | FORMAT_Other












section \<open>Sequences of calls on the facade\<close>

text \<open>The calls of the facade that assign to the state of the device, and what a client's
  sequence of them leaves of the device and of the hardware. None of them is the step of
  the background thread into streaming, \<open>RunVideo_deviceRunning\<close>.
  \<open>sets_property property call\<close> tells the call that sets that video property.\<close>

datatype facade_call =
    Call_SetListener "nat option"
  | Call_SetDeviceMoniker string
  | Call_SetResolution XDeviceCapabilities uint32_t
  | Call_SetVideoInput XDevicePinInfo
  | Call_Start bool
  | Call_SignalToStop
  | Call_SetVideoProperty XVideoProperty uint32_t bool
  | Call_SetCameraProperty XCameraProperty uint32_t bool

fun perform ::
  "('h \<Rightarrow> VideoProcAmpProperty \<Rightarrow> uint32_t \<Rightarrow> int \<Rightarrow> HRESULT \<times> 'h) \<Rightarrow>
   ('h \<Rightarrow> CameraControlProperty \<Rightarrow> uint32_t \<Rightarrow> int \<Rightarrow> HRESULT \<times> 'h) \<Rightarrow>
   XLocalVideoDeviceData \<times> 'h \<Rightarrow> facade_call \<Rightarrow> XLocalVideoDeviceData \<times> 'h" where
  "perform vpaSet ccSet (d, hw) (Call_SetListener listener) = (SetListener listener d, hw)"
| "perform vpaSet ccSet (d, hw) (Call_SetDeviceMoniker moniker)
     = (snd (SetDeviceMoniker moniker d), hw)"
| "perform vpaSet ccSet (d, hw) (Call_SetResolution resolution requestedFps)
     = (snd (SetResolution resolution requestedFps d), hw)"
| "perform vpaSet ccSet (d, hw) (Call_SetVideoInput input) = (SetVideoInput input d, hw)"
| "perform vpaSet ccSet (d, hw) (Call_Start threadCreated) = (snd (Start threadCreated d), hw)"
| "perform vpaSet ccSet (d, hw) Call_SignalToStop = (SignalToStop d, hw)"
| "perform vpaSet ccSet (d, hw) (Call_SetVideoProperty property val automatic)
     = snd (SetVideoProperty vpaSet hw d property val automatic)"
| "perform vpaSet ccSet (d, hw) (Call_SetCameraProperty property val automatic)
     = snd (SetCameraProperty ccSet hw d property val automatic)"

definition perform_all ::
  "('h \<Rightarrow> VideoProcAmpProperty \<Rightarrow> uint32_t \<Rightarrow> int \<Rightarrow> HRESULT \<times> 'h) \<Rightarrow>
   ('h \<Rightarrow> CameraControlProperty \<Rightarrow> uint32_t \<Rightarrow> int \<Rightarrow> HRESULT \<times> 'h) \<Rightarrow>
   facade_call list \<Rightarrow> XLocalVideoDeviceData \<times> 'h \<Rightarrow> XLocalVideoDeviceData \<times> 'h" where
  "perform_all vpaSet ccSet calls s = foldl (perform vpaSet ccSet) s calls"

fun sets_property :: "XVideoProperty \<Rightarrow> facade_call \<Rightarrow> bool" where
  "sets_property property (Call_SetVideoProperty property' val automatic) = (property' = property)"
| "sets_property property call = False"

section \<open>Reachable device states\<close>

text \<open>The states a device object goes through. Only the constructor and
  \<open>SetDeviceMoniker\<close> assign \<open>DeviceMoniker\<close>, and only \<open>Start\<close> creates the thread;
  the last rule stands for every other step of the facade and of the background thread,
  which keep the moniker and at most end the thread.\<close>

inductive reachable :: "XLocalVideoDeviceData \<Rightarrow> bool" where
  constructed: "reachable (XLocalVideoDeviceData_ctor deviceMoniker)"
| started: "reachable d \<Longrightarrow> reachable (snd (Start threadCreated d))"
| moniker_set: "reachable d \<Longrightarrow> reachable (snd (SetDeviceMoniker moniker d))"
| other_step:
    "reachable d \<Longrightarrow> DeviceMoniker d' = DeviceMoniker d \<Longrightarrow>
     (BackgroundThread d' \<longrightarrow> BackgroundThread d) \<Longrightarrow> reachable d'"

section \<open>Reference functions and loop invariants\<close>

text \<open>What a row of the conversion amounts to: \<open>swap_rb\<close> exchanges the first and the
  third byte of every triple, \<open>row_result sn dn n src dst\<close> is \<open>dst\<close> with the \<open>3 * n\<close>
  bytes from \<open>dn\<close> replaced by the swapped bytes of \<open>src\<close> from \<open>sn\<close>, and
  \<open>pack_result\<close> is what the three shuffled stores of one pack write.\<close>

fun swap_rb :: "'a list \<Rightarrow> 'a list" where
  "swap_rb (b # g # r # xs) = r # g # b # swap_rb xs"
| "swap_rb xs = []"

definition row_result :: "nat \<Rightarrow> nat \<Rightarrow> nat \<Rightarrow> 'a list \<Rightarrow> 'a list \<Rightarrow> 'a list" where
  "row_result sn dn n src dst =
     take dn dst @ swap_rb (take (3 * n) (drop sn src)) @ drop (dn + 3 * n) dst"

definition pack_result :: "byte list \<Rightarrow> byte list" where
  "pack_result c =
     (let chunk0 = take 16 c; chunk1 = take 16 (drop 16 c); chunk2 = take 16 (drop 32 c)
      in mm_or_si128 (mm_shuffle_epi8 chunk0 swapIndeces_0)
                     (mm_shuffle_epi8 chunk1 chunk0IndecesFrom1)
         @ mm_or_si128
             (mm_or_si128 (mm_shuffle_epi8 chunk1 swapIndeces_1)
                          (mm_shuffle_epi8 chunk0 chunk1IndecesFrom0))
             (mm_shuffle_epi8 chunk2 chunk1IndecesFrom2)
         @ mm_or_si128 (mm_shuffle_epi8 chunk2 swapIndeces_2)
                       (mm_shuffle_epi8 chunk1 chunk2IndecesFrom1))"


section \<open>Example devices, hardware and frames\<close>

text \<open>A device that was never started, one whose thread runs, and one that holds the
  results of a discovery and a deferred property.\<close>

definition idle_device :: XLocalVideoDeviceData where
  "idle_device = XLocalVideoDeviceData_ctor ''cam''"

definition unnamed_device :: XLocalVideoDeviceData where
  "unnamed_device = XLocalVideoDeviceData_ctor []"

definition running_device :: XLocalVideoDeviceData where
  "running_device = snd (Start True idle_device)"

definition vga24 :: XDeviceCapabilities where
  "vga24 = \<lparr>Width = 640, Height = 480, BitCount = 24, AverageFrameRate = 30,
            MaximumFrameRate = 30, MinimumFrameRate = 15\<rparr>"

definition discovered_device :: XLocalVideoDeviceData where
  "discovered_device =
     idle_device\<lparr>Capabilities := [vga24], VideoPins := [\<lparr>pinIndex = 0, pinType = 1\<rparr>],
                 IsCrossbarAvailable := True, InfoCollectedEvent := True\<rparr>"

definition deferred_device :: XLocalVideoDeviceData where
  "deferred_device =
     running_device\<lparr>Listener := Some 1,
       VideoPropertiesToSet := [(XVideoProperty_Brightness, (5, False)),
                                (XVideoProperty_Gain, (7, True))]\<rparr>"

text \<open>What a client may call after setting the gain.\<close>

definition later_calls :: "facade_call list" where
  "later_calls =
     [Call_SetVideoProperty XVideoProperty_Hue 3 True, Call_SetResolution vga24 30,
      Call_Start True, Call_SetCameraProperty XCameraProperty_Focus 4 False,
      Call_SetListener None, Call_SignalToStop]"

text \<open>A hardware that logs the properties set on it and rejects the gain; one that
  answers every read with zero.\<close>

definition logging_vpaSet ::
  "(VideoProcAmpProperty \<times> uint32_t \<times> int) list \<Rightarrow> VideoProcAmpProperty \<Rightarrow> uint32_t \<Rightarrow> int \<Rightarrow>
   HRESULT \<times> (VideoProcAmpProperty \<times> uint32_t \<times> int) list" where
  "logging_vpaSet hw property val flags =
     (if property = VideoProcAmp_Gain then E_PROP_ID_UNSUPPORTED else 0,
      hw @ [(property, val, flags)])"

definition logging_ccSet ::
  "(VideoProcAmpProperty \<times> uint32_t \<times> int) list \<Rightarrow> CameraControlProperty \<Rightarrow> uint32_t \<Rightarrow> int \<Rightarrow>
   HRESULT \<times> (VideoProcAmpProperty \<times> uint32_t \<times> int) list" where
  "logging_ccSet hw property val flags = (0, hw)"

definition zero_vpaGet :: "unit \<Rightarrow> VideoProcAmpProperty \<Rightarrow> HRESULT \<times> uint32_t \<times> int" where
  "zero_vpaGet hw property = (0, 0, 0)"

definition E_NOINTERFACE :: HRESULT where
  "E_NOINTERFACE = - 2147467262"

text \<open>A frame of 17 by 2 pixels whose byte at offset \<open>i\<close> is \<open>i\<close>, and a grabber set
  to that size with an image of stride 52.\<close>

definition frame_17x2 :: "byte list" where
  "frame_17x2 = map of_nat [0..<102]"

definition listening_device :: XLocalVideoDeviceData where
  "listening_device = running_device\<lparr>Listener := Some 1\<rparr>"

definition blank_17x2 :: XImage where
  "blank_17x2 = \<lparr>imgWidth = 17, imgHeight = 2, imgStride = 52, imgData = replicate 104 0\<rparr>"

definition grabber_17x2 :: SampleGrabber where
  "grabber_17x2 =
     \<lparr>mImage = Some blank_17x2, mWidth = 17, mHeight = 2, mSSSE3supported = False\<rparr>"

text \<open>The image that the frame should become: its second row first, each row followed
  by the byte of padding that the conversion leaves alone.\<close>

definition image_17x2 :: XImage where
  "image_17x2 =
     blank_17x2\<lparr>imgData :=
       swap_rb (drop 51 frame_17x2) @ [0] @ swap_rb (take 51 frame_17x2) @ [0]\<rparr>"

definition no_allocate :: "int \<Rightarrow> int \<Rightarrow> XImage option" where
  "no_allocate width height = None"


section \<open>The two conversion paths compute the same row\<close>

lemma sbind_Inr [simp]: "sbind (Inr x) f = f x"
  by (simp add: sbind_def)

lemma sbind_Inl [simp]: "sbind (Inl e) f = Inl e"
  by (simp add: sbind_def)

lemma sbind_assoc: "sbind (sbind m f) g = sbind m (\<lambda>x. sbind (f x) g)"
  by (cases m) simp_all

lemma for_loop_add:
  "for_loop (m + n) i body s = sbind (for_loop m i body s) (for_loop n (i + int m) body)"
proof (induction m arbitrary: i s)
  case 0
  show ?case by simp
next
  case (Suc m)
  show ?case
  proof (cases "body i s")
    case (Inl e)
    then show ?thesis by simp
  next
    case (Inr s')
    then show ?thesis using Suc [of "i + 1" s'] by (simp add: ac_simps)
  qed
qed

lemma for_loop_shift:
  "for_loop n (i + k) body = for_loop n i (\<lambda>x. body (x + k))"
proof (induction n arbitrary: i)
  case 0
  show ?case by (rule ext) simp
next
  case (Suc n)
  have "for_loop n (i + k + 1) body = for_loop n (i + 1) (\<lambda>x. body (x + k))"
    using Suc [of "i + 1"] by (simp add: ac_simps)
  then show ?case by (intro ext) simp
qed

lemma copy_pixel_eq:
  "copy_pixel src s d dst =
     (if 0 \<le> s \<and> s + 3 \<le> int (length src) \<and> 0 \<le> d \<and> d + 3 \<le> int (length dst)
      then Inr (take (nat d) dst @ [src ! (nat s + 2), src ! (nat s + 1), src ! nat s]
                @ drop (nat d + 3) dst)
      else Inl OutOfBounds)"
proof (cases "0 \<le> s \<and> s + 3 \<le> int (length src) \<and> 0 \<le> d \<and> d + 3 \<le> int (length dst)")
  case False
  then show ?thesis
    by (auto simp: copy_pixel_def load_byte_def store_byte_def RedIndex_def GreenIndex_def
        BlueIndex_def)
next
  case True
  define sn dn where "sn = nat s" and "dn = nat d"
  with True have s: "s = int sn" and d: "d = int dn"
    and sl: "sn + 3 \<le> length src" and dl: "dn + 3 \<le> length dst"
    by auto
  have "dst[dn + 2 := src ! sn, dn + 1 := src ! (sn + 1), dn := src ! (sn + 2)]
        = take dn dst @ [src ! (sn + 2), src ! (sn + 1), src ! sn] @ drop (dn + 3) dst"
    using dl by (auto simp: list_eq_iff_nth_eq nth_append nth_list_update nth_Cons' )
  then show ?thesis using sl dl
    by (simp add: s d copy_pixel_def load_byte_def store_byte_def RedIndex_def GreenIndex_def
        BlueIndex_def nat_add_distrib)
qed


lemma take3_drop:
  "sn + 3 \<le> length src \<Longrightarrow>
   take (3 * Suc n) (drop sn src)
     = src ! sn # src ! (sn + 1) # src ! (sn + 2) # take (3 * n) (drop (sn + 3) src)"
proof -
  assume a: "sn + 3 \<le> length src"
  have d0: "drop sn src = src ! sn # drop (Suc sn) src"
    using a by (simp add: Cons_nth_drop_Suc)
  have d1: "drop (Suc sn) src = src ! (sn + 1) # drop (Suc (Suc sn)) src"
    using a by (simp add: Cons_nth_drop_Suc)
  have d2: "drop (Suc (Suc sn)) src = src ! (sn + 2) # drop (sn + 3) src"
    using a Cons_nth_drop_Suc [of "sn + 2" src] by (simp add: numeral_3_eq_3)
  have "3 * Suc n = Suc (Suc (Suc (3 * n)))" by simp
  then show ?thesis by (simp only: d0 d1 d2 take_Suc_Cons)
qed

lemma row_result_Suc:
  assumes "sn + 3 \<le> length src" "dn + 3 \<le> length dst"
  shows "row_result (sn + 3) (dn + 3) n src
           (take dn dst @ [src ! (sn + 2), src ! (sn + 1), src ! sn] @ drop (dn + 3) dst)
         = row_result sn dn (Suc n) src dst"
proof -
  have l: "length (take dn dst) = dn" using assms by simp
  have "drop (dn + 3 + 3 * n) (take dn dst @ [src ! (sn + 2), src ! (sn + 1), src ! sn] @ drop (dn + 3) dst)
        = drop (dn + 3 * Suc n) dst"
  proof -
    have e: "dn + 3 + 3 * n = dn + Suc (Suc (Suc (3 * n)))" by simp
    have "drop (3 * n) (drop (dn + 3) dst) = drop (dn + 3 * Suc n) dst"
      by (simp add: ac_simps)
    then show ?thesis
      unfolding e by (simp only: drop_append l diff_add_inverse drop_Suc_Cons append.simps)
        (simp add: l add.assoc)
  qed
  moreover have "take (dn + 3) (take dn dst @ [src ! (sn + 2), src ! (sn + 1), src ! sn] @ drop (dn + 3) dst)
        = take dn dst @ [src ! (sn + 2), src ! (sn + 1), src ! sn]"
    using assms by (simp add: l)
  ultimately show ?thesis
    unfolding row_result_def take3_drop [OF assms(1)] by simp
qed

lemma scalar_loop_eq:
  "for_loop n 0 (\<lambda>x. copy_pixel src (s + 3 * x) (d + 3 * x)) dst =
     (if n = 0 then Inr dst
      else if 0 \<le> s \<and> s + 3 * int n \<le> int (length src) \<and>
              0 \<le> d \<and> d + 3 * int n \<le> int (length dst)
      then Inr (row_result (nat s) (nat d) n src dst)
      else Inl OutOfBounds)"
proof (induction n arbitrary: s d dst)
  case 0
  show ?case by simp
next
  case (Suc n)
  have step: "for_loop (Suc n) 0 (\<lambda>x. copy_pixel src (s + 3 * x) (d + 3 * x)) dst
      = sbind (copy_pixel src s d dst)
          (for_loop n 0 (\<lambda>x. copy_pixel src (s + 3 + 3 * x) (d + 3 + 3 * x)))"
    using for_loop_shift [of n 0 1 "\<lambda>x. copy_pixel src (s + 3 * x) (d + 3 * x)"]
    by (simp add: algebra_simps)
  show ?case
  proof (cases "0 \<le> s \<and> s + 3 \<le> int (length src) \<and> 0 \<le> d \<and> d + 3 \<le> int (length dst)")
    case False
    then show ?thesis unfolding step copy_pixel_eq by auto
  next
    case True
    define sn dn where "sn = nat s" and "dn = nat d"
    with True have s: "s = int sn" and d: "d = int dn"
      and sl: "sn + 3 \<le> length src" and dl: "dn + 3 \<le> length dst"
      by auto
    define dst' where
      "dst' = take dn dst @ [src ! (sn + 2), src ! (sn + 1), src ! sn] @ drop (dn + 3) dst"
    have len: "length dst' = length dst" using dl by (simp add: dst'_def)
    have cp: "copy_pixel src s d dst = Inr dst'"
      using sl dl by (simp add: copy_pixel_eq s d dst'_def)
    have n3: "nat (int sn + 3) = sn + 3" "nat (int dn + 3) = dn + 3" by simp_all
    show ?thesis
    proof (cases "n = 0")
      case True
      have "row_result sn dn (Suc 0) src dst = dst'"
        using row_result_Suc [OF sl dl, of 0] by (simp add: row_result_def dst'_def)
      then show ?thesis using sl dl unfolding step cp by (simp add: True s d)
    next
      case False
      have rr: "row_result (sn + 3) (dn + 3) n src dst' = row_result sn dn (Suc n) src dst"
        unfolding dst'_def by (rule row_result_Suc [OF sl dl])
      from False show ?thesis
        unfolding step cp sbind_Inr Suc.IH
        by (auto simp: len s d n3 rr)
    qed
  qed
qed


lemmas shuffle_masks =
  swapIndeces_0_def swapIndeces_1_def swapIndeces_2_def chunk0IndecesFrom1_def
  chunk2IndecesFrom1_def chunk1IndecesFrom0_def chunk1IndecesFrom2_def


lemma pack_result_explicit:
  "pack_result [c0, c1, c2, c3, c4, c5, c6, c7, c8, c9, c10, c11, c12, c13, c14, c15, c16, c17, c18, c19, c20, c21, c22, c23, c24, c25, c26, c27, c28, c29, c30, c31, c32, c33, c34, c35, c36, c37, c38, c39, c40, c41, c42, c43, c44, c45, c46, c47] = swap_rb [c0, c1, c2, c3, c4, c5, c6, c7, c8, c9, c10, c11, c12, c13, c14, c15, c16, c17, c18, c19, c20, c21, c22, c23, c24, c25, c26, c27, c28, c29, c30, c31, c32, c33, c34, c35, c36, c37, c38, c39, c40, c41, c42, c43, c44, c45, c46, c47]"
  unfolding pack_result_def
  by (simp add: shuffle_masks mm_set_epi8_def mm_shuffle_epi8_def mm_or_si128_def)

lemma pack_result_swap: "length c = 48 \<Longrightarrow> pack_result c = swap_rb c"
proof -
  assume len: "length c = 48"
  have "map ((!) c) [0..<length c] = c" by (rule map_nth)
  then have c: "map ((!) c) [0..<48] = c" by (simp only: len)
  have "pack_result (map ((!) c) [0..<48]) = swap_rb (map ((!) c) [0..<48])"
    by (simp add: upt_rec pack_result_explicit del: upt_Suc)
  then show ?thesis by (simp only: c)
qed

lemma splice_twice:
  assumes "dn + length v + length w \<le> length dst"
  shows "take (dn + length v) (take dn dst @ v @ drop (dn + length v) dst) @ w
           @ drop (dn + length v + length w) (take dn dst @ v @ drop (dn + length v) dst)
         = take dn dst @ (v @ w) @ drop (dn + length (v @ w)) dst"
proof -
  have l: "length (take dn dst) = dn" using assms by simp
  show ?thesis using assms by (simp add: l ac_simps)
qed

lemma shuffle_length [simp]: "length (mm_shuffle_epi8 a m) = length m"
  by (simp add: mm_shuffle_epi8_def)

lemma or_length [simp]: "length (mm_or_si128 a b) = min (length a) (length b)"
  by (simp add: mm_or_si128_def)

lemma mask_lengths [simp]:
  "length swapIndeces_0 = 16" "length swapIndeces_1 = 16" "length swapIndeces_2 = 16"
  "length chunk0IndecesFrom1 = 16" "length chunk2IndecesFrom1 = 16"
  "length chunk1IndecesFrom0 = 16" "length chunk1IndecesFrom2 = 16"
  by (simp_all add: shuffle_masks mm_set_epi8_def)

lemma copy_pack_eq:
  "copy_pack src s d dst =
     (if 0 \<le> s \<and> s + 48 \<le> int (length src) \<and> 0 \<le> d \<and> d + 48 \<le> int (length dst)
      then Inr (row_result (nat s) (nat d) 16 src dst)
      else Inl OutOfBounds)"
proof (cases "0 \<le> s \<and> s + 48 \<le> int (length src) \<and> 0 \<le> d \<and> d + 48 \<le> int (length dst)")
  case False
  then show ?thesis
    by (auto simp: copy_pack_def mm_loadu_si128_def mm_storeu_si128_def sbind_def
        split: sum.splits if_splits)
next
  case True
  define sn dn where "sn = nat s" and "dn = nat d"
  with True have s: "s = int sn" and d: "d = int dn"
    and sl: "sn + 48 \<le> length src" and dl: "dn + 48 \<le> length dst"
    by auto
  define c where "c = take 48 (drop sn src)"
  have clen: "length c = 48" using sl by (simp add: c_def)
  define chunk0 chunk1 chunk2 where "chunk0 = take 16 c" and "chunk1 = take 16 (drop 16 c)"
    and "chunk2 = take 16 (drop 32 c)"
  define v0 v1 v2 where
    "v0 = mm_or_si128 (mm_shuffle_epi8 chunk0 swapIndeces_0)
                      (mm_shuffle_epi8 chunk1 chunk0IndecesFrom1)"
    and "v1 = mm_or_si128
                 (mm_or_si128 (mm_shuffle_epi8 chunk1 swapIndeces_1)
                              (mm_shuffle_epi8 chunk0 chunk1IndecesFrom0))
                 (mm_shuffle_epi8 chunk2 chunk1IndecesFrom2)"
    and "v2 = mm_or_si128 (mm_shuffle_epi8 chunk2 swapIndeces_2)
                          (mm_shuffle_epi8 chunk1 chunk2IndecesFrom1)"
  have vlen: "length v0 = 16" "length v1 = 16" "length v2 = 16"
    by (simp_all add: v0_def v1_def v2_def)
  have pr: "v0 @ v1 @ v2 = swap_rb c"
    using pack_result_swap [OF clen]
    by (simp add: pack_result_def Let_def v0_def v1_def v2_def chunk0_def chunk1_def chunk2_def)
  have l0: "mm_loadu_si128 src (int sn) = Inr chunk0"
    using sl by (simp add: mm_loadu_si128_def chunk0_def c_def)
  have l1: "mm_loadu_si128 src (int sn + 16) = Inr chunk1"
    using sl by (simp add: mm_loadu_si128_def chunk1_def c_def drop_take nat_add_distrib add.commute)
  have l2: "mm_loadu_si128 src (int sn + 32) = Inr chunk2"
    using sl by (simp add: mm_loadu_si128_def chunk2_def c_def drop_take nat_add_distrib add.commute)
  define dst1 where "dst1 = take dn dst @ v0 @ drop (dn + 16) dst"
  define dst2 where "dst2 = take dn dst @ (v0 @ v1) @ drop (dn + 32) dst"
  define dst3 where "dst3 = take dn dst @ (v0 @ v1 @ v2) @ drop (dn + 48) dst"
  have s0: "mm_storeu_si128 dst (int dn) v0 = Inr dst1"
    using dl by (simp add: mm_storeu_si128_def dst1_def)
  have len1: "length dst1 = length dst" using dl vlen by (simp add: dst1_def)
  have len2: "length dst2 = length dst" using dl vlen by (simp add: dst2_def)
  have "dst2 = take (dn + 16) dst1 @ v1 @ drop (dn + 16 + 16) dst1"
    using splice_twice [of dn v0 v1 dst] dl vlen by (simp add: dst1_def dst2_def)
  then have s1: "mm_storeu_si128 dst1 (int dn + 16) v1 = Inr dst2"
    using dl by (simp add: mm_storeu_si128_def len1 nat_add_distrib)
  have "dst3 = take (dn + 32) dst2 @ v2 @ drop (dn + 32 + 16) dst2"
    using splice_twice [of dn "v0 @ v1" v2 dst] dl vlen by (simp add: dst2_def dst3_def)
  then have s2: "mm_storeu_si128 dst2 (int dn + 32) v2 = Inr dst3"
    using dl by (simp add: mm_storeu_si128_def len2 nat_add_distrib)
  have "copy_pack src s d dst = Inr dst3"
    unfolding copy_pack_def s d l0 l1 l2 sbind_Inr
    unfolding v0_def [symmetric] v1_def [symmetric] v2_def [symmetric] s0 s1 s2 sbind_Inr ..
  moreover have "row_result sn dn 16 src dst = dst3"
    by (simp add: row_result_def dst3_def pr c_def)
  ultimately show ?thesis using True by (simp add: sn_def dn_def)
qed


lemma copy_pack_pixels:
  "copy_pack src s d = for_loop 16 0 (\<lambda>x. copy_pixel src (s + 3 * x) (d + 3 * x))"
  by (rule ext) (simp add: copy_pack_eq scalar_loop_eq)

lemma pack_loop_pixels:
  "for_loop k 0 (\<lambda>x. copy_pack src (s + 48 * x) (d + 48 * x))
   = for_loop (16 * k) 0 (\<lambda>x. copy_pixel src (s + 3 * x) (d + 3 * x))"
proof (induction k arbitrary: s d)
  case 0
  show ?case by (rule ext) simp
next
  case (Suc k)
  have a: "for_loop k 1 (\<lambda>x. copy_pack src (s + 48 * x) (d + 48 * x))
           = for_loop (16 * k) 0 (\<lambda>x. copy_pixel src (s + 48 + 3 * x) (d + 48 + 3 * x))"
    using for_loop_shift [of k 0 1 "\<lambda>x. copy_pack src (s + 48 * x) (d + 48 * x)"]
      Suc.IH [of "s + 48" "d + 48"]
    by (simp add: algebra_simps)
  have b: "for_loop (16 * k) 16 (\<lambda>x. copy_pixel src (s + 3 * x) (d + 3 * x))
           = for_loop (16 * k) 0 (\<lambda>x. copy_pixel src (s + 48 + 3 * x) (d + 48 + 3 * x))"
    using for_loop_shift [of "16 * k" 0 16 "\<lambda>x. copy_pixel src (s + 3 * x) (d + 3 * x)"]
    by (simp add: algebra_simps)
  show ?case
  proof (rule ext)
    fix dst
    have "for_loop (16 * Suc k) 0 (\<lambda>x. copy_pixel src (s + 3 * x) (d + 3 * x)) dst
          = sbind (for_loop 16 0 (\<lambda>x. copy_pixel src (s + 3 * x) (d + 3 * x)) dst)
              (for_loop (16 * k) 16 (\<lambda>x. copy_pixel src (s + 3 * x) (d + 3 * x)))"
      using for_loop_add [of 16 "16 * k" 0 _ dst] by simp
    also have "\<dots> = sbind (copy_pack src s d dst)
              (for_loop (16 * k) 0 (\<lambda>x. copy_pixel src (s + 48 + 3 * x) (d + 48 + 3 * x)))"
      by (simp only: b copy_pack_pixels [of src s d])
    also have "\<dots> = sbind (copy_pack src s d dst)
              (for_loop k 1 (\<lambda>x. copy_pack src (s + 48 * x) (d + 48 * x)))"
      by (simp only: a)
    finally show "for_loop (Suc k) 0 (\<lambda>x. copy_pack src (s + 48 * x) (d + 48 * x)) dst
          = for_loop (16 * Suc k) 0 (\<lambda>x. copy_pixel src (s + 3 * x) (d + 3 * x)) dst"
      by simp
  qed
qed

lemma c_div_mod_nat:
  "nat (c_div w 16) = nat w div 16" "nat (c_mod w 16) = nat w mod 16"
proof -
  show d: "nat (c_div w 16) = nat w div 16"
  proof (cases "0 \<le> w")
    case True
    then show ?thesis by (cases "w = 0") (simp_all add: c_div_def nat_div_distrib)
  next
    case False
    then have "c_div w 16 \<le> 0" by (simp add: c_div_def pos_imp_zdiv_nonneg_iff)
    with False show ?thesis by simp
  qed
  show "nat (c_mod w 16) = nat w mod 16"
  proof (cases "0 \<le> w")
    case True
    then have "c_div w 16 = w div 16" by (cases "w = 0") (simp_all add: c_div_def)
    then have "c_mod w 16 = w mod 16" by (simp add: c_mod_def minus_mult_div_eq_mod)
    then show ?thesis using True by (simp add: nat_mod_distrib)
  next
    case False
    then have "c_mod w 16 = - (\<bar>w\<bar> mod 16)"
      by (simp add: c_mod_def c_div_def minus_mult_div_eq_mod [symmetric])
    then have "c_mod w 16 \<le> 0" by simp
    with False show ?thesis by simp
  qed
qed

lemma vector_row_scalar: "vector_row width src s d dst = scalar_row width src s d dst"
proof -
  define p r where "p = nat width div 16" and "r = nat width mod 16"
  let ?pix = "\<lambda>x. copy_pixel src (s + 3 * x) (d + 3 * x)"
  have t: "for_loop r 0 (\<lambda>x. copy_pixel src (s + 48 * int p + 3 * x) (d + 48 * int p + 3 * x))
           = for_loop r (int (16 * p)) ?pix"
    using for_loop_shift [of r 0 "int (16 * p)" ?pix] by (simp add: algebra_simps)
  have "vector_row width src s d dst
        = sbind (for_loop (16 * p) 0 ?pix dst) (for_loop r (int (16 * p)) ?pix)"
    unfolding vector_row_def Let_def c_div_mod_nat pack_loop_pixels
    by (simp only: p_def [symmetric] r_def [symmetric] t)
  also have "\<dots> = for_loop (16 * p + r) 0 ?pix dst"
    by (simp add: for_loop_add)
  also have "16 * p + r = nat width" by (simp add: p_def r_def)
  finally show ?thesis by (simp add: scalar_row_def)
qed

lemma convert_paths_equal:
  "convert True width height src srcStride dstStride data
   = convert False width height src srcStride dstStride data"
  by (simp add: convert_def vector_row_scalar [abs_def])


lemma sbind_Inr_right [simp]: "sbind m Inr = m"
  by (cases m) simp_all

lemma for_loop_snoc:
  "for_loop (Suc n) 0 body s = sbind (for_loop n 0 body s) (body (int n))"
proof -
  have "for_loop 0 (int n + 1) body = Inr"
    by (rule ext) simp
  then have "for_loop 1 (int n) body = body (int n)"
    by (intro ext) simp
  then show ?thesis using for_loop_add [of n 1 0 body s] by simp
qed

lemma swap_rb_length: "length (swap_rb xs) = 3 * (length xs div 3)"
  by (induction xs rule: swap_rb.induct) (simp_all, arith)

lemma swap_rb_nth:
  "3 * x + 3 \<le> length xs \<Longrightarrow> k < 3 \<Longrightarrow> swap_rb xs ! (3 * x + k) = xs ! (3 * x + (2 - k))"
proof (induction xs arbitrary: x rule: swap_rb.induct)
  case (1 b g r xs)
  show ?case
  proof (cases x)
    case 0
    from \<open>k < 3\<close> have "k = 0 \<or> k = 1 \<or> k = 2" by arith
    then show ?thesis using 0 by (auto simp: numeral_2_eq_2)
  next
    case (Suc x')
    have e: "3 * x + k = Suc (Suc (Suc (3 * x' + k)))"
      "3 * x + (2 - k) = Suc (Suc (Suc (3 * x' + (2 - k))))"
      using Suc by simp_all
    show ?thesis
      unfolding e using "1.IH" [of x'] "1.prems" Suc by simp
  qed
qed simp_all

lemma row_result_length:
  "sn + 3 * n \<le> length src \<Longrightarrow> dn + 3 * n \<le> length dst \<Longrightarrow>
   length (row_result sn dn n src dst) = length dst"
  by (simp add: row_result_def swap_rb_length)

lemma row_result_outside:
  assumes "sn + 3 * n \<le> length src" "dn + 3 * n \<le> length dst"
    and "i < dn \<or> dn + 3 * n \<le> i" "i < length dst"
  shows "row_result sn dn n src dst ! i = dst ! i"
proof -
  have l: "length (take dn dst) = dn" using assms by simp
  have m: "length (swap_rb (take (3 * n) (drop sn src))) = 3 * n"
    using assms by (simp add: swap_rb_length)
  show ?thesis
    using assms(3)
  proof
    assume "i < dn"
    then show ?thesis using assms(2) by (simp add: row_result_def nth_append)
  next
    assume a: "dn + 3 * n \<le> i"
    then have b: "\<not> i < dn" "\<not> i - dn < 3 * n" by simp_all
    have "(take dn dst @ swap_rb (take (3 * n) (drop sn src)) @ drop (dn + 3 * n) dst) ! i
          = drop (dn + 3 * n) dst ! (i - dn - 3 * n)"
      using assms(2) b by (simp add: nth_append m)
    also have "\<dots> = dst ! i" using a assms by simp
    finally show ?thesis by (simp add: row_result_def)
  qed
qed

lemma row_result_inside:
  assumes "sn + 3 * n \<le> length src" "dn + 3 * n \<le> length dst" "x < n" "k < 3"
  shows "row_result sn dn n src dst ! (dn + 3 * x + k) = src ! (sn + 3 * x + (2 - k))"
proof -
  have l: "length (take dn dst) = dn" using assms by simp
  have m: "length (swap_rb (take (3 * n) (drop sn src))) = 3 * n"
    using assms by (simp add: swap_rb_length)
  have r: "3 * x + k < 3 * n" "3 * x + (2 - k) < 3 * n" using assms by simp_all
  have "row_result sn dn n src dst ! (dn + 3 * x + k)
        = swap_rb (take (3 * n) (drop sn src)) ! (3 * x + k)"
    using r assms(2) by (simp add: row_result_def nth_append m add.assoc)
  also have "\<dots> = take (3 * n) (drop sn src) ! (3 * x + (2 - k))"
    using assms by (intro swap_rb_nth) simp_all
  also have "\<dots> = src ! (sn + 3 * x + (2 - k))"
    using r assms by (simp add: add.assoc)
  finally show ?thesis .
qed


lemma row_result_0: "dn \<le> length dst \<Longrightarrow> row_result sn dn 0 src dst = dst"
  by (simp add: row_result_def)

lemma scalar_row_in_range:
  assumes "s + 3 * nat width \<le> length src" "d + 3 * nat width \<le> length dst"
  shows "scalar_row width src (int s) (int d) dst
         = Inr (row_result s d (nat width) src dst)"
proof (cases "nat width = 0")
  case True
  then show ?thesis using assms by (simp add: scalar_row_def row_result_0)
next
  case False
  have "int s + 3 * int (nat width) \<le> int (length src)"
    "int d + 3 * int (nat width) \<le> int (length dst)"
    using assms by linarith+
  with False show ?thesis
    unfolding scalar_row_def scalar_loop_eq by simp
qed

lemma row_offsets:
  fixes H D y :: nat
  assumes "y < H"
  shows "int D * (int H - 1) - int y * int D = int (D * (H - 1 - y))"
proof -
  define c where "c = H - 1 - y"
  have "H = Suc (y + c)" using assms by (simp add: c_def)
  then show ?thesis by (simp add: algebra_simps)
qed

lemma convert_rows:
  fixes H S D :: nat
  assumes "3 * nat width \<le> S" "3 * nat width \<le> D" "H * S \<le> length src"
    and "length data = D * H" "m \<le> H"
  shows "\<exists>out. for_loop m 0
            (\<lambda>y. scalar_row width src (y * int S) (int D * (int H - 1) - y * int D)) data
          = Inr out \<and> length out = length data \<and>
          (\<forall>y<m. \<forall>x<nat width. \<forall>k<3.
             out ! (D * (H - 1 - y) + 3 * x + k) = src ! (y * S + 3 * x + (2 - k)))"
  using assms(5)
proof (induction m)
  case 0
  show ?case by simp
next
  case (Suc m)
  let ?body = "\<lambda>y. scalar_row width src (y * int S) (int D * (int H - 1) - y * int D)"
  let ?n = "nat width"
  from Suc obtain out where run: "for_loop m 0 ?body data = Inr out"
    and len: "length out = length data"
    and inv: "\<forall>y<m. \<forall>x<?n. \<forall>k<3.
               out ! (D * (H - 1 - y) + 3 * x + k) = src ! (y * S + 3 * x + (2 - k))"
    by auto
  have mH: "m < H" using Suc.prems by simp
  define a where "a = H - 1 - m"
  have Ha: "H = Suc (m + a)" using mH by (simp add: a_def)
  have "Suc m * S \<le> H * S" using Suc.prems by (intro mult_le_mono1)
  then have sr: "m * S + 3 * ?n \<le> length src" using assms(1,3) by simp
  have "D * a + D \<le> D * H" by (simp add: Ha)
  then have dr: "D * a + 3 * ?n \<le> length out" using assms(2,4) len by simp
  define out' where "out' = row_result (m * S) (D * a) ?n src out"
  have body: "?body (int m) out = Inr out'"
    using scalar_row_in_range [OF sr dr] row_offsets [OF mH, of D]
    by (simp add: out'_def a_def)
  have run': "for_loop (Suc m) 0 ?body data = Inr out'"
    unfolding for_loop_snoc run using body by simp
  have len': "length out' = length data"
    using row_result_length [OF sr dr] len by (simp add: out'_def)
  have "out' ! (D * (H - 1 - y) + 3 * x + k) = src ! (y * S + 3 * x + (2 - k))"
    if "y < Suc m" "x < ?n" "k < 3" for y x k
  proof (cases "y = m")
    case True
    then show ?thesis
      using row_result_inside [OF sr dr that(2,3)] by (simp add: out'_def a_def)
  next
    case False
    then have ym: "y < m" using that by simp
    define b where "b = m - y - 1"
    have yb: "H - 1 - y = a + Suc b" using ym mH by (simp add: a_def b_def)
    have lo: "D * a + D \<le> D * (H - 1 - y)" unfolding yb by simp
    have "H = Suc (y + (a + Suc b))" using ym mH yb by simp
    then have "D * (H - 1 - y) + D \<le> D * H" unfolding yb by simp
    then have hi: "D * (H - 1 - y) + D \<le> length out" using assms(4) len by simp
    have xk: "3 * x + k < 3 * ?n" using that by simp
    have "out' ! (D * (H - 1 - y) + 3 * x + k) = out ! (D * (H - 1 - y) + 3 * x + k)"
      unfolding out'_def
      using lo hi xk assms(2) by (intro row_result_outside [OF sr dr]) simp_all
    then show ?thesis using inv ym that by simp
  qed
  with run' len' show ?case by blast
qed

section \<open>Start, the moniker and the resolution\<close>

lemma running_has_moniker:
  "reachable d \<Longrightarrow> BackgroundThread d \<Longrightarrow> DeviceMoniker d \<noteq> []"
proof (induction rule: reachable.induct)
  case (constructed deviceMoniker)
  then show ?case by (simp add: XLocalVideoDeviceData_ctor_def)
next
  case (started d threadCreated)
  then show ?case by (auto simp: Start_def IsRunning_def Let_def split: if_splits)
next
  case (moniker_set d moniker)
  then show ?case by (auto simp: SetDeviceMoniker_def IsRunning_def split: if_splits)
next
  case (other_step d d')
  then show ?case by simp
qed

lemma reachable_idle: "reachable idle_device"
  unfolding idle_device_def by (rule reachable.constructed)

lemma reachable_unnamed: "reachable unnamed_device"
  unfolding unnamed_device_def by (rule reachable.constructed)

lemma reachable_running: "reachable running_device"
  unfolding running_device_def by (intro reachable.started reachable_idle)

lemma running_device_eq:
  "running_device = idle_device\<lparr>BackgroundThread := True\<rparr>"
  by (simp add: running_device_def idle_device_def Start_def IsRunning_def
      XLocalVideoDeviceData_ctor_def)

lemma IsRunning_examples:
  "IsRunning running_device" "\<not> IsRunning idle_device" "\<not> IsRunning unnamed_device"
  "\<not> IsRunning discovered_device"
  by (simp_all add: running_device_eq discovered_device_def idle_device_def unnamed_device_def
      IsRunning_def XLocalVideoDeviceData_ctor_def)

text \<open>C4. \<open>Start\<close> on a device whose moniker is empty returns
  \<open>ErrorInvalidConfiguration\<close> and leaves the whole state as it was, whatever the thread
  library would have answered: no thread is created, the frame counter and the events are
  not reset. A reachable device with an empty moniker has no running thread, so
  \<open>IsRunning\<close> is false afterwards.\<close>

theorem Start_empty_moniker:
  "DeviceMoniker d = [] \<Longrightarrow>
   Start threadCreated d = (ErrorInvalidConfiguration, d) \<and>
   (reachable d \<longrightarrow> \<not> IsRunning (snd (Start threadCreated d)))"
  using running_has_moniker [of d] by (auto simp: Start_def IsRunning_def)

text \<open>A device constructed without a moniker.\<close>

theorem Start_empty_moniker_witness:
  "DeviceMoniker unnamed_device = [] \<and> reachable unnamed_device \<and>
   Start True unnamed_device = (ErrorInvalidConfiguration, unnamed_device) \<and>
   \<not> IsRunning (snd (Start True unnamed_device))"
proof -
  have m: "DeviceMoniker unnamed_device = []"
    by (simp add: unnamed_device_def XLocalVideoDeviceData_ctor_def)
  show ?thesis
    using m reachable_unnamed Start_empty_moniker [OF m, of True] by auto
qed

text \<open>C10. \<open>Start\<close> on a device whose background thread runs returns \<open>SuccessCode\<close>
  and leaves the whole state as it was: no second thread, the frame counter, the exit event
  and the discovery event untouched. The thread of a reachable device runs only under a
  moniker that is not empty.\<close>

theorem Start_while_running:
  "reachable d \<Longrightarrow> IsRunning d \<Longrightarrow> Start threadCreated d = (SuccessCode, d)"
  using running_has_moniker [of d] by (simp add: Start_def IsRunning_def)

text \<open>A device that was started once.\<close>

theorem Start_while_running_witness:
  "reachable running_device \<and> IsRunning running_device \<and>
   Start True running_device = (SuccessCode, running_device) \<and>
   Start False running_device = (SuccessCode, running_device)"
  using reachable_running IsRunning_examples(1)
    Start_while_running [OF reachable_running IsRunning_examples(1), of True]
    Start_while_running [OF reachable_running IsRunning_examples(1), of False]
  by simp

text \<open>C7. While the background thread runs, \<open>SetDeviceMoniker\<close> and \<open>SetResolution\<close>
  return false and change nothing; on an idle device they return true, the first having
  stored the moniker, the second the resolution and the requested frame rate.\<close>

theorem SetDeviceMoniker_SetResolution_gated:
  "(IsRunning d \<longrightarrow>
      SetDeviceMoniker moniker d = (False, d) \<and>
      SetResolution resolution requestedFps d = (False, d)) \<and>
   (\<not> IsRunning d \<longrightarrow>
      fst (SetDeviceMoniker moniker d) \<and>
      DeviceMoniker (snd (SetDeviceMoniker moniker d)) = moniker \<and>
      SetResolution resolution requestedFps d
        = (True, d\<lparr>Resolution := resolution, RequestedFps := requestedFps\<rparr>))"
  by (simp add: SetDeviceMoniker_def SetResolution_def)

text \<open>A running and an idle device.\<close>

theorem SetDeviceMoniker_SetResolution_gated_witness:
  "IsRunning running_device \<and>
   SetDeviceMoniker ''other'' running_device = (False, running_device) \<and>
   SetResolution vga24 25 running_device = (False, running_device) \<and>
   \<not> IsRunning idle_device \<and>
   fst (SetDeviceMoniker ''other'' idle_device) \<and>
   DeviceMoniker (snd (SetDeviceMoniker ''other'' idle_device)) = ''other'' \<and>
   SetResolution vga24 25 idle_device
     = (True, idle_device\<lparr>Resolution := vga24, RequestedFps := 25\<rparr>)"
  using IsRunning_examples(1,2)
    SetDeviceMoniker_SetResolution_gated [of running_device "''other''" vga24 25]
    SetDeviceMoniker_SetResolution_gated [of idle_device "''other''" vga24 25]
  by simp

text \<open>C9. A \<open>SetDeviceMoniker\<close> that returns true leaves the capability list and the
  pin list empty, the crossbar flag false and the discovery event reset.\<close>

theorem SetDeviceMoniker_clears_discovery:
  "fst (SetDeviceMoniker moniker d) \<Longrightarrow>
   Capabilities (snd (SetDeviceMoniker moniker d)) = [] \<and>
   VideoPins (snd (SetDeviceMoniker moniker d)) = [] \<and>
   \<not> IsCrossbarAvailable (snd (SetDeviceMoniker moniker d)) \<and>
   \<not> InfoCollectedEvent (snd (SetDeviceMoniker moniker d))"
  by (simp add: SetDeviceMoniker_def split: if_splits)

text \<open>A device that holds the results of a discovery.\<close>

theorem SetDeviceMoniker_clears_discovery_witness:
  "fst (SetDeviceMoniker ''other'' discovered_device) \<and>
   Capabilities discovered_device \<noteq> [] \<and>
   Capabilities (snd (SetDeviceMoniker ''other'' discovered_device)) = [] \<and>
   VideoPins (snd (SetDeviceMoniker ''other'' discovered_device)) = [] \<and>
   \<not> IsCrossbarAvailable (snd (SetDeviceMoniker ''other'' discovered_device)) \<and>
   \<not> InfoCollectedEvent (snd (SetDeviceMoniker ''other'' discovered_device))"
proof -
  have f: "fst (SetDeviceMoniker ''other'' discovered_device)"
    using IsRunning_examples(4) by (simp add: SetDeviceMoniker_def)
  have "Capabilities discovered_device \<noteq> []" by (simp add: discovered_device_def)
  then show ?thesis using f SetDeviceMoniker_clears_discovery [OF f] by simp
qed

section \<open>Video properties of a device that is not streaming\<close>

lemma not_running_examples:
  "\<not> DeviceIsRunning idle_device" "\<not> DeviceIsRunning deferred_device"
  by (simp_all add: deferred_device_def running_device_eq idle_device_def
      XLocalVideoDeviceData_ctor_def)

text \<open>C5, as amended. \<open>GetVideoProperty\<close> with a null value pointer returns
  \<open>ErrorNullParameter\<close>; with a value pointer and a property id below \<open>Brightness\<close> or
  above \<open>Gain\<close> it returns \<open>ErrorInvalidProperty\<close>; both whatever the state of the
  device. With a value pointer and a property from \<open>Brightness\<close> to \<open>Gain\<close>, on a
  device that is not streaming, it returns \<open>ErrorDeivceNotReady\<close>. It writes nothing in
  the three cases.\<close>

theorem GetVideoProperty_not_ready:
  "(\<not> valuePtr \<longrightarrow>
      GetVideoProperty vpaGet hw d property valuePtr automaticPtr
        = (ErrorNullParameter, None, None)) \<and>
   (valuePtr \<and> (property < XVideoProperty_Brightness \<or> XVideoProperty_Gain < property) \<longrightarrow>
      GetVideoProperty vpaGet hw d property valuePtr automaticPtr
        = (ErrorInvalidProperty, None, None)) \<and>
   (valuePtr \<and> XVideoProperty_Brightness \<le> property \<and> property \<le> XVideoProperty_Gain \<and>
    \<not> DeviceIsRunning d \<longrightarrow>
      GetVideoProperty vpaGet hw d property valuePtr automaticPtr
        = (ErrorDeivceNotReady, None, None))"
  by (auto simp: GetVideoProperty_def)

lemma property_ids:
  "XVideoProperty_Brightness \<le> XVideoProperty_Hue" "XVideoProperty_Hue \<le> XVideoProperty_Gain"
  "XVideoProperty_Gain < 10" "- 1 < XVideoProperty_Brightness"
  "XVideoProperty_Brightness \<le> XVideoProperty_Gain"
  "XVideoProperty_Hue \<noteq> XVideoProperty_Gain"
  by (simp_all add: XVideoProperty_Brightness_def XVideoProperty_Hue_def XVideoProperty_Gain_def)

text \<open>An idle device: a null pointer, the ids 10 and -1, and the hue.\<close>

theorem GetVideoProperty_not_ready_witness:
  "GetVideoProperty zero_vpaGet () idle_device XVideoProperty_Hue False True
     = (ErrorNullParameter, None, None) \<and>
   XVideoProperty_Gain < 10 \<and>
   GetVideoProperty zero_vpaGet () idle_device 10 True False
     = (ErrorInvalidProperty, None, None) \<and>
   - 1 < XVideoProperty_Brightness \<and>
   GetVideoProperty zero_vpaGet () idle_device (- 1) True False
     = (ErrorInvalidProperty, None, None) \<and>
   XVideoProperty_Brightness \<le> XVideoProperty_Hue \<and> XVideoProperty_Hue \<le> XVideoProperty_Gain \<and>
   \<not> DeviceIsRunning idle_device \<and>
   GetVideoProperty zero_vpaGet () idle_device XVideoProperty_Hue True False
     = (ErrorDeivceNotReady, None, None)"
  using property_ids not_running_examples(1)
    GetVideoProperty_not_ready [of False zero_vpaGet "()" idle_device XVideoProperty_Hue True]
    GetVideoProperty_not_ready [of True zero_vpaGet "()" idle_device 10 False]
    GetVideoProperty_not_ready [of True zero_vpaGet "()" idle_device "- 1" False]
    GetVideoProperty_not_ready [of True zero_vpaGet "()" idle_device XVideoProperty_Hue False]
  by simp

text \<open>C5 as stated fails: on an idle device the null check and the range check come
  first, so a null value pointer gives \<open>ErrorNullParameter\<close> and the property id 10
  gives \<open>ErrorInvalidProperty\<close>.\<close>

theorem GetVideoProperty_other_errors:
  "\<not> DeviceIsRunning idle_device \<and>
   GetVideoProperty zero_vpaGet () idle_device XVideoProperty_Brightness False False
     = (ErrorNullParameter, None, None) \<and>
   GetVideoProperty zero_vpaGet () idle_device 10 True True
     = (ErrorInvalidProperty, None, None)"
  using not_running_examples(1)
  by (simp add: GetVideoProperty_def XVideoProperty_Brightness_def XVideoProperty_Gain_def)

lemma map_of_map_assign: "map_of (map_assign k v m) = (map_of m)(k \<mapsto> v)"
  by (induction m) (auto simp: fun_upd_twist)

lemma map_assign_other: "k' \<noteq> k \<Longrightarrow> map_of (map_assign k' v' m) k = map_of m k"
  by (simp add: map_of_map_assign)

text \<open>A call of the facade on a device that is not streaming leaves it not streaming,
  leaves the hardware, and leaves the deferred entry of every property it does not
  set.\<close>

lemma perform_keeps:
  assumes "\<not> DeviceIsRunning d" and "\<not> sets_property property call"
  shows "\<not> DeviceIsRunning (fst (perform vpaSet ccSet (d, hw) call)) \<and>
         snd (perform vpaSet ccSet (d, hw) call) = hw \<and>
         map_of (VideoPropertiesToSet (fst (perform vpaSet ccSet (d, hw) call))) property
           = map_of (VideoPropertiesToSet d) property"
  using assms
  by (cases call)
     (auto simp: SetListener_def SetDeviceMoniker_def SetResolution_def SetVideoInput_def
        Start_def SignalToStop_def SetVideoProperty_def SetCameraProperty_def Let_def
        map_assign_other)

lemma perform_all_keeps:
  assumes "\<not> DeviceIsRunning d" and "\<forall>call \<in> set calls. \<not> sets_property property call"
  shows "\<not> DeviceIsRunning (fst (perform_all vpaSet ccSet calls (d, hw))) \<and>
         snd (perform_all vpaSet ccSet calls (d, hw)) = hw \<and>
         map_of (VideoPropertiesToSet (fst (perform_all vpaSet ccSet calls (d, hw)))) property
           = map_of (VideoPropertiesToSet d) property"
  using assms
proof (induction calls arbitrary: d)
  case Nil
  then show ?case by (simp add: perform_all_def)
next
  case (Cons call calls)
  obtain d' where p: "perform vpaSet ccSet (d, hw) call = (d', hw)"
    using perform_keeps [of d property call vpaSet ccSet hw] Cons.prems
    by (cases "perform vpaSet ccSet (d, hw) call") simp
  have k: "\<not> DeviceIsRunning d'"
    "map_of (VideoPropertiesToSet d') property = map_of (VideoPropertiesToSet d) property"
    using perform_keeps [of d property call vpaSet ccSet hw] Cons.prems by (simp_all add: p)
  have "perform_all vpaSet ccSet (call # calls) (d, hw) = perform_all vpaSet ccSet calls (d', hw)"
    by (simp add: perform_all_def p)
  then show ?case using Cons.IH [of d'] k Cons.prems by simp
qed

text \<open>C6, as amended. \<open>SetVideoProperty\<close> with a property id below \<open>Brightness\<close>
  or above \<open>Gain\<close> returns \<open>ErrorInvalidProperty\<close> and changes neither the device nor
  the hardware. With a property from \<open>Brightness\<close> to \<open>Gain\<close>, on a device that is not
  streaming, it returns \<open>SuccessCode\<close>, changes nothing but the deferred map, where it
  inserts or overwrites the entry of the property, and leaves the hardware as it was; the
  pair of the value and the automatic flag is then retrievable from the map under the
  property, and after any sequence of later calls on the facade that does not set the
  property again the device is still not streaming, the hardware is still as it was and
  the pair is still retrievable from the map.\<close>

theorem SetVideoProperty_deferred:
  "(property < XVideoProperty_Brightness \<or> XVideoProperty_Gain < property \<longrightarrow>
      SetVideoProperty vpaSet hw d property val automatic = (ErrorInvalidProperty, d, hw)) \<and>
   (XVideoProperty_Brightness \<le> property \<and> property \<le> XVideoProperty_Gain \<and>
    \<not> DeviceIsRunning d \<longrightarrow>
      SetVideoProperty vpaSet hw d property val automatic
        = (SuccessCode,
           d\<lparr>VideoPropertiesToSet :=
               map_assign property (val, automatic) (VideoPropertiesToSet d)\<rparr>,
           hw) \<and>
      map_of (VideoPropertiesToSet
                (fst (snd (SetVideoProperty vpaSet hw d property val automatic))))
        = (map_of (VideoPropertiesToSet d))(property \<mapsto> (val, automatic)) \<and>
      (\<forall>calls. (\<forall>call \<in> set calls. \<not> sets_property property call) \<longrightarrow>
         \<not> DeviceIsRunning
             (fst (perform_all vpaSet ccSet calls
                     (snd (SetVideoProperty vpaSet hw d property val automatic)))) \<and>
         snd (perform_all vpaSet ccSet calls
                (snd (SetVideoProperty vpaSet hw d property val automatic))) = hw \<and>
         map_of (VideoPropertiesToSet
                   (fst (perform_all vpaSet ccSet calls
                           (snd (SetVideoProperty vpaSet hw d property val automatic)))))
           property = Some (val, automatic)))"
proof (intro conjI impI allI)
  assume "property < XVideoProperty_Brightness \<or> XVideoProperty_Gain < property"
  then show "SetVideoProperty vpaSet hw d property val automatic = (ErrorInvalidProperty, d, hw)"
    by (auto simp: SetVideoProperty_def)
next
  assume a: "XVideoProperty_Brightness \<le> property \<and> property \<le> XVideoProperty_Gain \<and>
    \<not> DeviceIsRunning d"
  then show run: "SetVideoProperty vpaSet hw d property val automatic
        = (SuccessCode,
           d\<lparr>VideoPropertiesToSet :=
               map_assign property (val, automatic) (VideoPropertiesToSet d)\<rparr>,
           hw)"
    by (simp add: SetVideoProperty_def)
  show m: "map_of (VideoPropertiesToSet
                (fst (snd (SetVideoProperty vpaSet hw d property val automatic))))
        = (map_of (VideoPropertiesToSet d))(property \<mapsto> (val, automatic))"
    by (simp add: run map_of_map_assign)
  let ?d1 = "d\<lparr>VideoPropertiesToSet :=
               map_assign property (val, automatic) (VideoPropertiesToSet d)\<rparr>"
  have idle: "\<not> DeviceIsRunning ?d1" using a by simp
  fix calls
  assume others: "\<forall>call \<in> set calls. \<not> sets_property property call"
  note kept = perform_all_keeps [OF idle others, of vpaSet ccSet hw]
  show "\<not> DeviceIsRunning
             (fst (perform_all vpaSet ccSet calls
                     (snd (SetVideoProperty vpaSet hw d property val automatic))))"
    using kept by (simp add: run)
  show "snd (perform_all vpaSet ccSet calls
                (snd (SetVideoProperty vpaSet hw d property val automatic))) = hw"
    using kept by (simp add: run)
  show "map_of (VideoPropertiesToSet
                   (fst (perform_all vpaSet ccSet calls
                           (snd (SetVideoProperty vpaSet hw d property val automatic)))))
           property = Some (val, automatic)"
    using kept by (simp add: run map_of_map_assign)
qed

lemma later_calls_others: "\<forall>call \<in> set later_calls. \<not> sets_property XVideoProperty_Gain call"
  by (simp add: later_calls_def XVideoProperty_Hue_def XVideoProperty_Gain_def)

lemma later_calls_result:
  "perform_all logging_vpaSet logging_ccSet later_calls
     (snd (SetVideoProperty logging_vpaSet [] deferred_device XVideoProperty_Gain 9 False))
   = (deferred_device\<lparr>Listener := None, ExitEvent := True,
        CameraPropertiesToSet := [(XCameraProperty_Focus, (4, False))],
        VideoPropertiesToSet :=
           [(XVideoProperty_Brightness, (5, False)), (XVideoProperty_Hue, (3, True)),
            (XVideoProperty_Gain, (9, False))]\<rparr>, [])"
  by (simp add: perform_all_def later_calls_def SetVideoProperty_def deferred_device_def
      running_device_eq idle_device_def XLocalVideoDeviceData_ctor_def SetResolution_def
      Start_def IsRunning_def SetListener_def SignalToStop_def SetCameraProperty_def
      XCameraProperty_Pan_def XCameraProperty_Focus_def
      XVideoProperty_Brightness_def XVideoProperty_Hue_def XVideoProperty_Gain_def)

text \<open>The ids 10 and -1 on an idle device; the gain of a device that already holds a
  deferred gain is overwritten, and a later hue, a refused resolution, a start, a
  deferred focus, the removal of the listener and a signal to stop leave it.\<close>

theorem SetVideoProperty_deferred_witness:
  "XVideoProperty_Gain < 10 \<and>
   SetVideoProperty logging_vpaSet [] idle_device 10 5 False
     = (ErrorInvalidProperty, idle_device, []) \<and>
   - 1 < XVideoProperty_Brightness \<and>
   SetVideoProperty logging_vpaSet [] idle_device (- 1) 5 False
     = (ErrorInvalidProperty, idle_device, []) \<and>
   XVideoProperty_Brightness \<le> XVideoProperty_Gain \<and> XVideoProperty_Gain \<le> XVideoProperty_Gain \<and>
   \<not> DeviceIsRunning deferred_device \<and>
   SetVideoProperty logging_vpaSet [] deferred_device XVideoProperty_Gain 9 False
     = (SuccessCode,
        deferred_device\<lparr>VideoPropertiesToSet :=
           [(XVideoProperty_Brightness, (5, False)), (XVideoProperty_Gain, (9, False))]\<rparr>,
        []) \<and>
   map_of (VideoPropertiesToSet
      (fst (snd (SetVideoProperty logging_vpaSet [] deferred_device XVideoProperty_Gain 9 False))))
       XVideoProperty_Gain = Some (9, False) \<and>
   list_all (\<lambda>call. \<not> sets_property XVideoProperty_Gain call) later_calls \<and>
   perform_all logging_vpaSet logging_ccSet later_calls
       (snd (SetVideoProperty logging_vpaSet [] deferred_device XVideoProperty_Gain 9 False))
     = (deferred_device\<lparr>Listener := None, ExitEvent := True,
          CameraPropertiesToSet := [(XCameraProperty_Focus, (4, False))],
          VideoPropertiesToSet :=
            [(XVideoProperty_Brightness, (5, False)), (XVideoProperty_Hue, (3, True)),
             (XVideoProperty_Gain, (9, False))]\<rparr>, []) \<and>
   \<not> DeviceIsRunning
       (fst (perform_all logging_vpaSet logging_ccSet later_calls
          (snd (SetVideoProperty logging_vpaSet [] deferred_device XVideoProperty_Gain 9 False)))) \<and>
   snd (perform_all logging_vpaSet logging_ccSet later_calls
          (snd (SetVideoProperty logging_vpaSet [] deferred_device XVideoProperty_Gain 9 False)))
     = [] \<and>
   map_of (VideoPropertiesToSet
      (fst (perform_all logging_vpaSet logging_ccSet later_calls
         (snd (SetVideoProperty logging_vpaSet [] deferred_device XVideoProperty_Gain 9 False)))))
       XVideoProperty_Gain = Some (9, False)"
proof -
  have m: "map_assign XVideoProperty_Gain (9, False) (VideoPropertiesToSet deferred_device)
           = [(XVideoProperty_Brightness, (5, False)), (XVideoProperty_Gain, (9 :: uint32_t, False))]"
    by (simp add: deferred_device_def XVideoProperty_Brightness_def XVideoProperty_Gain_def)
  note hi = SetVideoProperty_deferred [of 10 logging_vpaSet "[]" idle_device 5 False,
      THEN conjunct1, rule_format, OF disjI2, OF property_ids(3)]
  note lo = SetVideoProperty_deferred [of "- 1" logging_vpaSet "[]" idle_device 5 False,
      THEN conjunct1, rule_format, OF disjI1, OF property_ids(4)]
  note ok = SetVideoProperty_deferred [of XVideoProperty_Gain logging_vpaSet "[]"
      deferred_device 9 False, THEN conjunct2, rule_format,
      OF conjI [OF property_ids(5) conjI [OF order_refl not_running_examples(2)]]]
  note run = ok [THEN conjunct1]
  note stored = ok [THEN conjunct2, THEN conjunct1]
  note later = ok [THEN conjunct2, THEN conjunct2, THEN spec, THEN mp, OF later_calls_others]
  have r: "SetVideoProperty logging_vpaSet [] deferred_device XVideoProperty_Gain 9 False
     = (SuccessCode,
        deferred_device\<lparr>VideoPropertiesToSet :=
           [(XVideoProperty_Brightness, (5, False)), (XVideoProperty_Gain, (9, False))]\<rparr>,
        [])"
    using run by (simp only: m)
  have s: "map_of (VideoPropertiesToSet
      (fst (snd (SetVideoProperty logging_vpaSet [] deferred_device XVideoProperty_Gain 9 False))))
       XVideoProperty_Gain = Some (9, False)"
    by (simp only: stored fun_upd_same)
  have o: "list_all (\<lambda>call. \<not> sets_property XVideoProperty_Gain call) later_calls"
    using later_calls_others by (simp add: list_all_iff)
  show ?thesis
    by (intro conjI property_ids(3,4,5) order_refl not_running_examples(2) hi lo r s o
        later_calls_result
        later [THEN conjunct1] later [THEN conjunct2, THEN conjunct1]
        later [THEN conjunct2, THEN conjunct2])
qed

text \<open>C6 as stated fails: the property id 10 is rejected with
  \<open>ErrorInvalidProperty\<close> and nothing is stored.\<close>

theorem SetVideoProperty_invalid_id:
  "\<not> DeviceIsRunning idle_device \<and>
   SetVideoProperty logging_vpaSet [] idle_device 10 5 False
     = (ErrorInvalidProperty, idle_device, [])"
  using not_running_examples(1)
  by (simp add: SetVideoProperty_def XVideoProperty_Brightness_def XVideoProperty_Gain_def)

section \<open>The deferred video properties when streaming starts\<close>

lemma map_assign_valid_keys:
  "valid_video_keys m \<Longrightarrow> XVideoProperty_Brightness \<le> k \<Longrightarrow> k \<le> XVideoProperty_Gain \<Longrightarrow>
   valid_video_keys (map_assign k v m)"
  by (induction m) (auto simp: valid_video_keys_def)

text \<open>The keys of the deferred map are property ids that passed the range check:
  \<open>SetVideoProperty\<close> keeps them so.\<close>

lemma SetVideoProperty_valid_keys:
  "valid_video_keys (VideoPropertiesToSet d) \<Longrightarrow>
   valid_video_keys
     (VideoPropertiesToSet (fst (snd (SetVideoProperty vpaSet hw d property val automatic))))"
  by (auto simp: SetVideoProperty_def Let_def map_assign_valid_keys split: prod.splits)

lemma video_loop_applied:
  "DeviceIsRunning d \<Longrightarrow> VideoProcAmp d \<noteq> None \<Longrightarrow> valid_video_keys m \<Longrightarrow>
   apply_properties (SetVideoProperty vpaSet) m (ok, d, hw)
   = (fst (deferred_video_applied vpaSet m (ok, hw)), d,
      snd (deferred_video_applied vpaSet m (ok, hw)))"
proof (induction m arbitrary: ok hw)
  case Nil
  show ?case by simp
next
  case (Cons entry m)
  obtain hr hw' where set: "vpaSet hw (nativeVideoProperties ! nat (fst entry)) (fst (snd entry))
     (if snd (snd entry) then VideoProcAmp_Flags_Auto else VideoProcAmp_Flags_Manual) = (hr, hw')"
    by (cases "vpaSet hw (nativeVideoProperties ! nat (fst entry)) (fst (snd entry))
     (if snd (snd entry) then VideoProcAmp_Flags_Auto else VideoProcAmp_Flags_Manual)")
  from Cons.prems have range: "XVideoProperty_Brightness \<le> fst entry"
    "fst entry \<le> XVideoProperty_Gain" and rest: "valid_video_keys m"
    by (simp_all add: valid_video_keys_def)
  have one: "SetVideoProperty vpaSet hw d (fst entry) (fst (snd entry)) (snd (snd entry))
        = (if SUCCEEDED hr then SuccessCode
           else if hr = E_PROP_ID_UNSUPPORTED then ErrorUnsupportedProperty else ErrorFailed,
           d, hw')"
    using Cons.prems(1,2) range set
    by (auto simp: SetVideoProperty_def SUCCEEDED_def FAILED_def)
  have "(if SUCCEEDED hr then SuccessCode
           else if hr = E_PROP_ID_UNSUPPORTED then ErrorUnsupportedProperty else ErrorFailed)
          = SuccessCode \<longleftrightarrow> SUCCEEDED hr"
    by simp
  then show ?case
    using Cons.IH [OF Cons.prems(1,2) rest] by (simp add: one set)
qed

lemma SetCameraProperty_running:
  "DeviceIsRunning d \<Longrightarrow>
   \<exists>ret hw'. SetCameraProperty ccSet hw d property val automatic = (ret, d, hw')"
  by (auto simp: SetCameraProperty_def Let_def split: prod.splits)

lemma camera_loop_keeps:
  "DeviceIsRunning d \<Longrightarrow>
   fst (snd (apply_properties (SetCameraProperty ccSet) m (ok, d, hw))) = d"
proof (induction m arbitrary: ok hw)
  case Nil
  show ?case by simp
next
  case (Cons entry m)
  from SetCameraProperty_running [OF Cons.prems, of ccSet hw "fst entry" "fst (snd entry)"
      "snd (snd entry)"] obtain ret hw' where
    "SetCameraProperty ccSet hw d (fst entry) (fst (snd entry)) (snd (snd entry)) = (ret, d, hw')"
    by blast
  then show ?case
    using Cons.IH [OF Cons.prems] by simp
qed

lemma configureCamera_keeps:
  assumes "DeviceIsRunning d"
  shows "VideoPropertiesToSet (fst (RunVideo_configureCamera ccSet qi hw d)) = VideoPropertiesToSet d"
    and "DeviceIsRunning (fst (RunVideo_configureCamera ccSet qi hw d))"
    and "DeviceIsRunningEvent (fst (RunVideo_configureCamera ccSet qi hw d)) = DeviceIsRunningEvent d"
proof -
  let ?d1 = "d\<lparr>CameraControl := snd qi\<rparr>"
  have r: "DeviceIsRunning ?d1" using assms by simp
  have k: "fst (snd (apply_properties (SetCameraProperty ccSet) (CameraPropertiesToSet ?d1)
              (True, ?d1, hw))) = ?d1"
    by (rule camera_loop_keeps [OF r])
  show "VideoPropertiesToSet (fst (RunVideo_configureCamera ccSet qi hw d)) = VideoPropertiesToSet d"
    using k by (simp add: RunVideo_configureCamera_def Let_def case_prod_beta)
  show "DeviceIsRunning (fst (RunVideo_configureCamera ccSet qi hw d))"
    using k assms by (simp add: RunVideo_configureCamera_def Let_def case_prod_beta)
  show "DeviceIsRunningEvent (fst (RunVideo_configureCamera ccSet qi hw d)) = DeviceIsRunningEvent d"
    using k by (simp add: RunVideo_configureCamera_def Let_def case_prod_beta)
qed

lemma configureVideo_applied:
  assumes "SUCCEEDED (fst qi)" "snd qi \<noteq> None" "valid_video_keys (VideoPropertiesToSet d)"
    "DeviceIsRunning d"
  shows "RunVideo_configureVideo vpaSet qi hw d
     = (d\<lparr>VideoProcAmp := snd qi, VideoPropertiesToSet := []\<rparr>,
        snd (deferred_video_applied vpaSet (VideoPropertiesToSet d) (True, hw)),
        if fst (deferred_video_applied vpaSet (VideoPropertiesToSet d) (True, hw)) then []
        else NotifyError d ''Failed applying video configuration'' False)"
proof -
  let ?d1 = "d\<lparr>VideoProcAmp := snd qi\<rparr>"
  have "apply_properties (SetVideoProperty vpaSet) (VideoPropertiesToSet ?d1) (True, ?d1, hw)
   = (fst (deferred_video_applied vpaSet (VideoPropertiesToSet ?d1) (True, hw)), ?d1,
      snd (deferred_video_applied vpaSet (VideoPropertiesToSet ?d1) (True, hw)))"
    using assms by (intro video_loop_applied) simp_all
  then show ?thesis
    using assms(1,2) by (simp add: RunVideo_configureVideo_def NotifyError_def)
qed

text \<open>The step into streaming on a device that offers the video-property interface and
  whose deferred keys are valid, in the words of \<open>deferred_video_applied\<close>.\<close>

lemma deviceRunning_applied:
  assumes "SUCCEEDED (fst qiVideoProcAmp)" and "snd qiVideoProcAmp \<noteq> None"
    and "valid_video_keys (VideoPropertiesToSet d)"
  shows "VideoPropertiesToSet
           (fst (RunVideo_deviceRunning vpaSet ccSet qiVideoProcAmp qiCameraControl hw d)) = [] \<and>
         DeviceIsRunning
           (fst (RunVideo_deviceRunning vpaSet ccSet qiVideoProcAmp qiCameraControl hw d)) \<and>
         DeviceIsRunningEvent
           (fst (RunVideo_deviceRunning vpaSet ccSet qiVideoProcAmp qiCameraControl hw d)) \<and>
         RunVideo_deviceRunning vpaSet ccSet qiVideoProcAmp qiCameraControl hw d
           = (let applied = deferred_video_applied vpaSet (VideoPropertiesToSet d) (True, hw);
                  d2 = d\<lparr>DeviceIsRunning := True, DeviceIsRunningEvent := True,
                         VideoProcAmp := snd qiVideoProcAmp, VideoPropertiesToSet := []\<rparr>;
                  camera = RunVideo_configureCamera ccSet qiCameraControl (snd applied) d2
              in (fst camera, fst (snd camera),
                  (if fst applied then []
                   else NotifyError d ''Failed applying video configuration'' False)
                  @ snd (snd camera)))"
proof -
  let ?d1 = "d\<lparr>DeviceIsRunning := True, DeviceIsRunningEvent := True\<rparr>"
  let ?d2 = "d\<lparr>DeviceIsRunning := True, DeviceIsRunningEvent := True,
                 VideoProcAmp := snd qiVideoProcAmp, VideoPropertiesToSet := []\<rparr>"
  let ?applied = "deferred_video_applied vpaSet (VideoPropertiesToSet d) (True, hw)"
  have v: "RunVideo_configureVideo vpaSet qiVideoProcAmp hw ?d1
      = (?d2, snd ?applied,
         if fst ?applied then [] else NotifyError d ''Failed applying video configuration'' False)"
    using configureVideo_applied [of qiVideoProcAmp ?d1 vpaSet hw] assms
    by (simp add: NotifyError_def)
  have eq: "RunVideo_deviceRunning vpaSet ccSet qiVideoProcAmp qiCameraControl hw d
      = (let camera = RunVideo_configureCamera ccSet qiCameraControl (snd ?applied) ?d2
         in (fst camera, fst (snd camera),
             (if fst ?applied then []
              else NotifyError d ''Failed applying video configuration'' False)
             @ snd (snd camera)))"
    by (simp add: RunVideo_deviceRunning_def Let_def v case_prod_beta)
  have r: "DeviceIsRunning ?d2" by simp
  show ?thesis
    using configureCamera_keeps [OF r, of ccSet qiCameraControl "snd ?applied"]
    by (simp add: eq Let_def)
qed

lemma SetVideoProperty_running:
  "DeviceIsRunning d \<Longrightarrow>
   \<exists>ret hw'. SetVideoProperty vpaSet hw d property val automatic = (ret, d, hw')"
  by (auto simp: SetVideoProperty_def Let_def split: prod.splits)

lemma video_loop_keeps:
  "DeviceIsRunning d \<Longrightarrow>
   fst (snd (apply_properties (SetVideoProperty vpaSet) m (ok, d, hw))) = d"
proof (induction m arbitrary: ok hw)
  case Nil
  show ?case by simp
next
  case (Cons entry m)
  from SetVideoProperty_running [OF Cons.prems, of vpaSet hw "fst entry" "fst (snd entry)"
      "snd (snd entry)"] obtain ret hw' where
    "SetVideoProperty vpaSet hw d (fst entry) (fst (snd entry)) (snd (snd entry)) = (ret, d, hw')"
    by blast
  then show ?case
    using Cons.IH [OF Cons.prems] by simp
qed

lemma configureVideo_offered:
  assumes "SUCCEEDED (fst qi)" "snd qi \<noteq> None" "DeviceIsRunning d"
  shows "fst (RunVideo_configureVideo vpaSet qi hw d)
         = d\<lparr>VideoProcAmp := snd qi, VideoPropertiesToSet := []\<rparr>"
proof -
  let ?d1 = "d\<lparr>VideoProcAmp := snd qi\<rparr>"
  have r: "DeviceIsRunning ?d1" using assms by simp
  have k: "fst (snd (apply_properties (SetVideoProperty vpaSet) (VideoPropertiesToSet ?d1)
              (True, ?d1, hw))) = ?d1"
    by (rule video_loop_keeps [OF r])
  show ?thesis
    using k assms(1,2) by (simp add: RunVideo_configureVideo_def Let_def case_prod_beta)
qed

lemma configureVideo_not_offered:
  "\<not> (SUCCEEDED (fst qi) \<and> snd qi \<noteq> None) \<Longrightarrow>
   RunVideo_configureVideo vpaSet qi hw d = (d\<lparr>VideoProcAmp := snd qi\<rparr>, hw, [])"
  by (auto simp: RunVideo_configureVideo_def)

lemma deviceRunning_unfold:
  "RunVideo_deviceRunning vpaSet ccSet qiVideoProcAmp qiCameraControl hw d
   = (let video = RunVideo_configureVideo vpaSet qiVideoProcAmp hw
                    (d\<lparr>DeviceIsRunning := True, DeviceIsRunningEvent := True\<rparr>);
          camera = RunVideo_configureCamera ccSet qiCameraControl (fst (snd video)) (fst video)
      in (fst camera, fst (snd camera), snd (snd video) @ snd (snd camera)))"
  by (simp add: RunVideo_deviceRunning_def Let_def case_prod_beta)

lemma deviceRunning_offered:
  assumes "SUCCEEDED (fst qiVideoProcAmp) \<and> snd qiVideoProcAmp \<noteq> None"
  shows "VideoPropertiesToSet
           (fst (RunVideo_deviceRunning vpaSet ccSet qiVideoProcAmp qiCameraControl hw d)) = [] \<and>
         DeviceIsRunning
           (fst (RunVideo_deviceRunning vpaSet ccSet qiVideoProcAmp qiCameraControl hw d)) \<and>
         DeviceIsRunningEvent
           (fst (RunVideo_deviceRunning vpaSet ccSet qiVideoProcAmp qiCameraControl hw d))"
proof -
  let ?d1 = "d\<lparr>DeviceIsRunning := True, DeviceIsRunningEvent := True\<rparr>"
  let ?d2 = "?d1\<lparr>VideoProcAmp := snd qiVideoProcAmp, VideoPropertiesToSet := []\<rparr>"
  let ?hw2 = "fst (snd (RunVideo_configureVideo vpaSet qiVideoProcAmp hw ?d1))"
  have v: "fst (RunVideo_configureVideo vpaSet qiVideoProcAmp hw ?d1) = ?d2"
    using assms by (intro configureVideo_offered) simp_all
  have r2: "DeviceIsRunning ?d2" by simp
  have f: "fst (RunVideo_deviceRunning vpaSet ccSet qiVideoProcAmp qiCameraControl hw d)
           = fst (RunVideo_configureCamera ccSet qiCameraControl ?hw2 ?d2)"
    by (simp add: deviceRunning_unfold Let_def v)
  show ?thesis
    unfolding f using configureCamera_keeps [OF r2, of ccSet qiCameraControl ?hw2] by simp
qed

lemma deviceRunning_not_offered:
  assumes "\<not> (SUCCEEDED (fst qiVideoProcAmp) \<and> snd qiVideoProcAmp \<noteq> None)"
  shows "VideoPropertiesToSet
           (fst (RunVideo_deviceRunning vpaSet ccSet qiVideoProcAmp qiCameraControl hw d))
           = VideoPropertiesToSet d \<and>
         DeviceIsRunning
           (fst (RunVideo_deviceRunning vpaSet ccSet qiVideoProcAmp qiCameraControl hw d)) \<and>
         DeviceIsRunningEvent
           (fst (RunVideo_deviceRunning vpaSet ccSet qiVideoProcAmp qiCameraControl hw d)) \<and>
         RunVideo_deviceRunning vpaSet ccSet qiVideoProcAmp qiCameraControl hw d
           = (let d2 = d\<lparr>DeviceIsRunning := True, DeviceIsRunningEvent := True,
                         VideoProcAmp := snd qiVideoProcAmp\<rparr>;
                  camera = RunVideo_configureCamera ccSet qiCameraControl hw d2
              in (fst camera, fst (snd camera), snd (snd camera)))"
proof -
  let ?d2 = "d\<lparr>DeviceIsRunning := True, DeviceIsRunningEvent := True,
                 VideoProcAmp := snd qiVideoProcAmp\<rparr>"
  have eq: "RunVideo_deviceRunning vpaSet ccSet qiVideoProcAmp qiCameraControl hw d
      = (let camera = RunVideo_configureCamera ccSet qiCameraControl hw ?d2
         in (fst camera, fst (snd camera), snd (snd camera)))"
    by (simp add: deviceRunning_unfold configureVideo_not_offered [OF assms] Let_def)
  have r2: "DeviceIsRunning ?d2" by simp
  show ?thesis
    using configureCamera_keeps [OF r2, of ccSet qiCameraControl hw]
    by (simp add: eq Let_def)
qed

text \<open>C3, as amended. When the device offers the video-property interface (the query
  succeeds and gives a pointer), the step into streaming leaves the deferred video-property
  map empty and the device marked running, whatever the hardware answers; and, the keys
  of the map being property ids that \<open>SetVideoProperty\<close> accepted, it applies every entry
  to the hardware, in the order of the map, and-ing the successes into one flag, sends the
  listener the message of \<open>NotifyError\<close> with \<open>fatal\<close> false if the flag is false, and
  goes on into the camera configuration. When the device does not offer the interface (the
  query fails, or gives a null pointer), the step applies no entry, sends no message,
  leaves the map as it was, and goes on into the camera configuration with the device
  marked running.\<close>

theorem deferred_video_properties_applied:
  "(SUCCEEDED (fst qiVideoProcAmp) \<and> snd qiVideoProcAmp \<noteq> None \<longrightarrow>
      VideoPropertiesToSet
        (fst (RunVideo_deviceRunning vpaSet ccSet qiVideoProcAmp qiCameraControl hw d)) = [] \<and>
      DeviceIsRunning
        (fst (RunVideo_deviceRunning vpaSet ccSet qiVideoProcAmp qiCameraControl hw d)) \<and>
      DeviceIsRunningEvent
        (fst (RunVideo_deviceRunning vpaSet ccSet qiVideoProcAmp qiCameraControl hw d))) \<and>
   (SUCCEEDED (fst qiVideoProcAmp) \<and> snd qiVideoProcAmp \<noteq> None \<and>
    valid_video_keys (VideoPropertiesToSet d) \<longrightarrow>
      RunVideo_deviceRunning vpaSet ccSet qiVideoProcAmp qiCameraControl hw d
        = (let applied = deferred_video_applied vpaSet (VideoPropertiesToSet d) (True, hw);
               d2 = d\<lparr>DeviceIsRunning := True, DeviceIsRunningEvent := True,
                      VideoProcAmp := snd qiVideoProcAmp, VideoPropertiesToSet := []\<rparr>;
               camera = RunVideo_configureCamera ccSet qiCameraControl (snd applied) d2
           in (fst camera, fst (snd camera),
               (if fst applied then []
                else NotifyError d ''Failed applying video configuration'' False)
               @ snd (snd camera)))) \<and>
   (\<not> (SUCCEEDED (fst qiVideoProcAmp) \<and> snd qiVideoProcAmp \<noteq> None) \<longrightarrow>
      VideoPropertiesToSet
        (fst (RunVideo_deviceRunning vpaSet ccSet qiVideoProcAmp qiCameraControl hw d))
        = VideoPropertiesToSet d \<and>
      DeviceIsRunning
        (fst (RunVideo_deviceRunning vpaSet ccSet qiVideoProcAmp qiCameraControl hw d)) \<and>
      DeviceIsRunningEvent
        (fst (RunVideo_deviceRunning vpaSet ccSet qiVideoProcAmp qiCameraControl hw d)) \<and>
      RunVideo_deviceRunning vpaSet ccSet qiVideoProcAmp qiCameraControl hw d
        = (let d2 = d\<lparr>DeviceIsRunning := True, DeviceIsRunningEvent := True,
                      VideoProcAmp := snd qiVideoProcAmp\<rparr>;
               camera = RunVideo_configureCamera ccSet qiCameraControl hw d2
           in (fst camera, fst (snd camera), snd (snd camera))))"
proof (intro conjI)
  show "SUCCEEDED (fst qiVideoProcAmp) \<and> snd qiVideoProcAmp \<noteq> None \<longrightarrow>
      VideoPropertiesToSet
        (fst (RunVideo_deviceRunning vpaSet ccSet qiVideoProcAmp qiCameraControl hw d)) = [] \<and>
      DeviceIsRunning
        (fst (RunVideo_deviceRunning vpaSet ccSet qiVideoProcAmp qiCameraControl hw d)) \<and>
      DeviceIsRunningEvent
        (fst (RunVideo_deviceRunning vpaSet ccSet qiVideoProcAmp qiCameraControl hw d))"
    by (rule impI) (rule deviceRunning_offered)
  show "SUCCEEDED (fst qiVideoProcAmp) \<and> snd qiVideoProcAmp \<noteq> None \<and>
    valid_video_keys (VideoPropertiesToSet d) \<longrightarrow>
      RunVideo_deviceRunning vpaSet ccSet qiVideoProcAmp qiCameraControl hw d
        = (let applied = deferred_video_applied vpaSet (VideoPropertiesToSet d) (True, hw);
               d2 = d\<lparr>DeviceIsRunning := True, DeviceIsRunningEvent := True,
                      VideoProcAmp := snd qiVideoProcAmp, VideoPropertiesToSet := []\<rparr>;
               camera = RunVideo_configureCamera ccSet qiCameraControl (snd applied) d2
           in (fst camera, fst (snd camera),
               (if fst applied then []
                else NotifyError d ''Failed applying video configuration'' False)
               @ snd (snd camera)))"
    using deviceRunning_applied [of qiVideoProcAmp d vpaSet ccSet qiCameraControl hw] by blast
  show "\<not> (SUCCEEDED (fst qiVideoProcAmp) \<and> snd qiVideoProcAmp \<noteq> None) \<longrightarrow>
      VideoPropertiesToSet
        (fst (RunVideo_deviceRunning vpaSet ccSet qiVideoProcAmp qiCameraControl hw d))
        = VideoPropertiesToSet d \<and>
      DeviceIsRunning
        (fst (RunVideo_deviceRunning vpaSet ccSet qiVideoProcAmp qiCameraControl hw d)) \<and>
      DeviceIsRunningEvent
        (fst (RunVideo_deviceRunning vpaSet ccSet qiVideoProcAmp qiCameraControl hw d)) \<and>
      RunVideo_deviceRunning vpaSet ccSet qiVideoProcAmp qiCameraControl hw d
        = (let d2 = d\<lparr>DeviceIsRunning := True, DeviceIsRunningEvent := True,
                      VideoProcAmp := snd qiVideoProcAmp\<rparr>;
               camera = RunVideo_configureCamera ccSet qiCameraControl hw d2
           in (fst camera, fst (snd camera), snd (snd camera)))"
    by (rule impI) (rule deviceRunning_not_offered)
qed

lemma deferred_device_fields:
  "VideoPropertiesToSet deferred_device
     = [(XVideoProperty_Brightness, (5, False)), (XVideoProperty_Gain, (7, True))]"
  "CameraPropertiesToSet deferred_device = []"
  "Listener deferred_device = Some 1"
  by (simp_all add: deferred_device_def running_device_eq idle_device_def
      XLocalVideoDeviceData_ctor_def)

text \<open>A device with two deferred properties. On a hardware that offers the interface and
  rejects the second property, both are applied, the map is emptied, the listener is told
  and the device runs; where the query succeeds with a null pointer, nothing is applied,
  the map is kept and the device runs.\<close>

theorem deferred_video_properties_applied_witness:
  "SUCCEEDED (fst (0 :: int, Some (1 :: nat))) \<and> snd (0 :: int, Some (1 :: nat)) \<noteq> None \<and>
   valid_video_keys (VideoPropertiesToSet deferred_device) \<and>
   VideoPropertiesToSet
     (fst (RunVideo_deviceRunning logging_vpaSet logging_ccSet (0, Some 1) (E_NOINTERFACE, None)
             [] deferred_device)) = [] \<and>
   DeviceIsRunning
     (fst (RunVideo_deviceRunning logging_vpaSet logging_ccSet (0, Some 1) (E_NOINTERFACE, None)
             [] deferred_device)) \<and>
   RunVideo_deviceRunning logging_vpaSet logging_ccSet (0, Some 1) (E_NOINTERFACE, None)
       [] deferred_device
     = (deferred_device\<lparr>DeviceIsRunning := True, DeviceIsRunningEvent := True,
                          VideoProcAmp := Some 1, VideoPropertiesToSet := [],
                          CameraControl := None\<rparr>,
        [(VideoProcAmp_Brightness, 5, VideoProcAmp_Flags_Manual),
         (VideoProcAmp_Gain, 7, VideoProcAmp_Flags_Auto)],
        [''Failed applying video configuration'']) \<and>
   \<not> (SUCCEEDED (fst (0 :: int, None :: nat option)) \<and> snd (0 :: int, None :: nat option) \<noteq> None) \<and>
   VideoPropertiesToSet
     (fst (RunVideo_deviceRunning logging_vpaSet logging_ccSet (0, None) (E_NOINTERFACE, None)
             [] deferred_device))
     = [(XVideoProperty_Brightness, (5, False)), (XVideoProperty_Gain, (7, True))] \<and>
   DeviceIsRunning
     (fst (RunVideo_deviceRunning logging_vpaSet logging_ccSet (0, None) (E_NOINTERFACE, None)
             [] deferred_device)) \<and>
   RunVideo_deviceRunning logging_vpaSet logging_ccSet (0, None) (E_NOINTERFACE, None)
       [] deferred_device
     = (deferred_device\<lparr>DeviceIsRunning := True, DeviceIsRunningEvent := True,
                          VideoProcAmp := None, CameraControl := None\<rparr>, [], [])"
proof -
  have a: "SUCCEEDED (fst (0 :: int, Some (1 :: nat)))" by (simp add: SUCCEEDED_def)
  have b: "snd (0 :: int, Some (1 :: nat)) \<noteq> None" by simp
  have c: "valid_video_keys (VideoPropertiesToSet deferred_device)"
    by (simp add: deferred_device_fields valid_video_keys_def XVideoProperty_Brightness_def
        XVideoProperty_Gain_def)
  have n: "\<not> (SUCCEEDED (fst (0 :: int, None :: nat option))
               \<and> snd (0 :: int, None :: nat option) \<noteq> None)"
    by simp
  have cam: "RunVideo_configureCamera logging_ccSet (E_NOINTERFACE, None) hw d
        = (d\<lparr>CameraControl := None\<rparr>, hw, [])" for hw d
    by (simp add: RunVideo_configureCamera_def)
  note offered = deferred_video_properties_applied [of "(0, Some 1)" logging_vpaSet
      logging_ccSet "(E_NOINTERFACE, None)" "[]" deferred_device]
  note cleared = offered [THEN conjunct1, rule_format, OF conjI [OF a b]]
  note applied = offered [THEN conjunct2, THEN conjunct1, rule_format,
      OF conjI [OF a conjI [OF b c]]]
  note kept = deferred_video_properties_applied [of "(0, None)" logging_vpaSet
      logging_ccSet "(E_NOINTERFACE, None)" "[]" deferred_device,
      THEN conjunct2, THEN conjunct2, rule_format, OF n]
  show ?thesis
    using a b c n cleared applied kept
    by (simp add: cam NotifyError_def deferred_device_fields Let_def logging_vpaSet_def
        nativeVideoProperties_def XVideoProperty_Brightness_def XVideoProperty_Gain_def
        SUCCEEDED_def E_PROP_ID_UNSUPPORTED_def)
qed

text \<open>C3 as stated fails: on a device that does not offer the video-property interface
  the step into streaming applies no entry and leaves the deferred map as it was, so the
  map is not empty after a successful start.\<close>

theorem deferred_video_properties_kept:
  "\<not> SUCCEEDED E_NOINTERFACE \<and>
   DeviceIsRunning
     (fst (RunVideo_deviceRunning logging_vpaSet logging_ccSet (E_NOINTERFACE, None)
             (E_NOINTERFACE, None) [] deferred_device)) \<and>
   VideoPropertiesToSet
     (fst (RunVideo_deviceRunning logging_vpaSet logging_ccSet (E_NOINTERFACE, None)
             (E_NOINTERFACE, None) [] deferred_device))
     = [(XVideoProperty_Brightness, (5, False)), (XVideoProperty_Gain, (7, True))] \<and>
   fst (snd (RunVideo_deviceRunning logging_vpaSet logging_ccSet (E_NOINTERFACE, None)
             (E_NOINTERFACE, None) [] deferred_device)) = []"
  by (simp add: RunVideo_deviceRunning_def RunVideo_configureVideo_def
      RunVideo_configureCamera_def SUCCEEDED_def E_NOINTERFACE_def deferred_device_fields)

section \<open>Format enumeration: the capability list\<close>








section \<open>The converted image\<close>

lemma c_div_nonneg: "0 \<le> a \<Longrightarrow> 0 < b \<Longrightarrow> c_div a b = a div b"
  by (cases "a = 0") (simp_all add: c_div_def)

lemma take3_drop_nth:
  "i + 3 \<le> length xs \<Longrightarrow> take 3 (drop i xs) = [xs ! i, xs ! (i + 1), xs ! (i + 2)]"
  using take3_drop [of i xs 0] by simp

lemma convert_flips_and_swaps:
  fixes H S D :: nat
  assumes "3 * nat width \<le> S" "3 * nat width \<le> D" "H * S \<le> length src"
    and "length data = D * H"
  shows "\<exists>out. convert ssse3 width (int H) src (int S) (int D) data = Inr out \<and>
           length out = length data \<and>
           (\<forall>y<H. \<forall>x<nat width.
              take 3 (drop (D * (H - 1 - y) + 3 * x) out) = rev (take 3 (drop (y * S + 3 * x) src)) \<and>
              length (take 3 (drop (y * S + 3 * x) src)) = 3)"
proof -
  from convert_rows [OF assms, of H] obtain out where
    run: "for_loop H 0
            (\<lambda>y. scalar_row width src (y * int S) (int D * (int H - 1) - y * int D)) data = Inr out"
    and len: "length out = length data"
    and px: "\<And>y x k. y < H \<Longrightarrow> x < nat width \<Longrightarrow> k < 3 \<Longrightarrow>
               out ! (D * (H - 1 - y) + 3 * x + k) = src ! (y * S + 3 * x + (2 - k))"
    by auto
  have c: "convert ssse3 width (int H) src (int S) (int D) data = Inr out"
    using run convert_paths_equal [of width "int H" src "int S" "int D" data]
    by (cases ssse3) (simp_all add: convert_def)
  have "take 3 (drop (D * (H - 1 - y) + 3 * x) out) = rev (take 3 (drop (y * S + 3 * x) src)) \<and>
        length (take 3 (drop (y * S + 3 * x) src)) = 3"
    if yH: "y < H" and xw: "x < nat width" for y x
  proof -
    have "Suc y * S \<le> H * S" using yH by (intro mult_le_mono1) simp
    then have s: "y * S + 3 * x + 3 \<le> length src" using assms(1,3) xw by simp
    define a where "a = H - 1 - y"
    have "H = Suc (y + a)" using yH by (simp add: a_def)
    then have "D * a + D \<le> D * H" by simp
    then have d: "D * a + 3 * x + 3 \<le> length out" using assms(2,4) len xw by simp
    have "take 3 (drop (D * a + 3 * x) out)
          = [out ! (D * a + 3 * x + 0), out ! (D * a + 3 * x + 1), out ! (D * a + 3 * x + 2)]"
      using take3_drop_nth [OF d] by simp
    also have "\<dots> = [src ! (y * S + 3 * x + 2), src ! (y * S + 3 * x + 1), src ! (y * S + 3 * x)]"
      unfolding a_def using px [OF yH xw, of 0] px [OF yH xw, of 1] px [OF yH xw, of 2] by simp
    also have "\<dots> = rev (take 3 (drop (y * S + 3 * x) src))"
      using take3_drop_nth [OF s] by simp
    finally show ?thesis using s by (simp add: a_def)
  qed
  with c len show ?thesis by blast
qed

text \<open>A buffer that holds \<open>height\<close> rows of \<open>width\<close> pixels of three bytes has a row
  stride \<open>bufferLen / height\<close> of at least three bytes per pixel of the width.\<close>

lemma full_frame_rows:
  assumes "0 < height" and "3 * width * height \<le> int (length buffer)"
  shows "3 * width \<le> c_div (int (length buffer)) height"
proof -
  have "3 * width = (3 * width * height) div height" using assms(1) by simp
  also have "\<dots> \<le> int (length buffer) div height"
    using assms by (intro zdiv_mono1) simp_all
  finally show ?thesis using assms(1) by (simp add: c_div_nonneg)
qed

text \<open>C2. For a raw frame buffer with a height over zero and whose rows, of the stride
  \<open>bufferLen / height\<close>, hold the pixels of the width (as a buffer of
  \<open>width * height * 3\<close> bytes does), delivered to the callback of a grabber with a
  listener and an image of that size to convert into, the callback hands the listener a
  top-down image in which the pixel at \<open>(x, height - 1 - y)\<close> is the pixel at \<open>(x, y)\<close>
  of the buffer with its first and third byte exchanged, for all \<open>0 \<le> x < width\<close> and
  \<open>0 \<le> y < height\<close>, on either path.\<close>

theorem BufferCB_flips_and_swaps:
  assumes listener: "Listener parent \<noteq> None" and nonempty: "buffer \<noteq> []"
    and height: "0 < mHeight g"
    and rows: "3 * mWidth g \<le> c_div (int (length buffer)) (mHeight g)"
    and image: "ensure_image allocate g = Some img"
    and stride: "3 * mWidth g \<le> imgStride img"
    and size: "int (length (imgData img)) = imgStride img * mHeight g"
  shows "\<exists>parent' g' image'.
           BufferCB allocate parent g (Some buffer) = Inr (parent', g', Some image') \<and>
           mImage g' = Some image' \<and> imgStride image' = imgStride img \<and>
           length (imgData image') = length (imgData img) \<and>
           (\<forall>x y. 0 \<le> x \<and> x < mWidth g \<and> 0 \<le> y \<and> y < mHeight g \<longrightarrow>
              length (pixel_at buffer (c_div (int (length buffer)) (mHeight g)) x y) = 3 \<and>
              pixel_at (imgData image') (imgStride image') x (mHeight g - 1 - y)
                = rev (pixel_at buffer (c_div (int (length buffer)) (mHeight g)) x y))"
proof -
  define H where "H = nat (mHeight g)"
  define S where "S = nat (int (length buffer) div mHeight g)"
  define D where "D = nat (imgStride img)"
  have h: "mHeight g = int H" using height by (simp add: H_def)
  have cd: "c_div (int (length buffer)) (mHeight g) = int S"
    using height by (simp add: c_div_nonneg S_def pos_imp_zdiv_nonneg_iff)
  have "0 \<le> imgStride img"
  proof (rule ccontr)
    assume "\<not> 0 \<le> imgStride img"
    then have "imgStride img * mHeight g < 0" using height by (simp add: mult_neg_pos)
    with size show False by simp
  qed
  then have d: "imgStride img = int D" by (simp add: D_def)
  have a1: "3 * nat (mWidth g) \<le> S" using rows unfolding cd by linarith
  have a2: "3 * nat (mWidth g) \<le> D" using stride unfolding d by linarith
  have "mHeight g * (int (length buffer) div mHeight g) \<le> int (length buffer)"
    using height mult_div_mod_eq [of "mHeight g" "int (length buffer)"]
      pos_mod_sign [of "mHeight g" "int (length buffer)"]
    by linarith
  then have "int H * int S \<le> int (length buffer)"
    using height unfolding h [symmetric] S_def
    by (simp add: pos_imp_zdiv_nonneg_iff)
  then have a3: "H * S \<le> length buffer" by (metis of_nat_le_iff of_nat_mult)
  have "int (length (imgData img)) = int (D * H)" using size by (simp add: d h)
  then have a4: "length (imgData img) = D * H" by (simp only: of_nat_eq_iff)
  from convert_flips_and_swaps [OF a1 a2 a3 a4, of "mSSSE3supported g"] obtain out where
    c: "convert (mSSSE3supported g) (mWidth g) (int H) buffer (int S) (int D) (imgData img) = Inr out"
    and len: "length out = length (imgData img)"
    and px: "\<And>y x. y < H \<Longrightarrow> x < nat (mWidth g) \<Longrightarrow>
       take 3 (drop (D * (H - 1 - y) + 3 * x) out) = rev (take 3 (drop (y * S + 3 * x) buffer)) \<and>
       length (take 3 (drop (y * S + 3 * x) buffer)) = 3"
    by blast
  let ?parent' = "if \<not> ExitEvent parent
                  then parent\<lparr>FramesCounter := FramesCounter parent + 1\<rparr> else parent"
  let ?image' = "img\<lparr>imgData := out\<rparr>"
  have run: "BufferCB allocate parent g (Some buffer)
             = Inr (?parent', g\<lparr>mImage := Some ?image'\<rparr>, Some ?image')"
    using listener nonempty height c
    by (simp add: BufferCB_def image cd d h [symmetric] Let_def)
  have "length (pixel_at buffer (int S) x y) = 3 \<and>
        pixel_at out (int D) x (int H - 1 - y) = rev (pixel_at buffer (int S) x y)"
    if r: "0 \<le> x" "x < mWidth g" "0 \<le> y" "y < int H" for x y
  proof -
    define xn yn where "xn = nat x" and "yn = nat y"
    with r have x: "x = int xn" and y: "y = int yn" and xr: "xn < nat (mWidth g)" and yr: "yn < H"
      by auto
    have o1: "nat (int yn * int S + 3 * int xn) = yn * S + 3 * xn"
      by (simp add: nat_add_distrib nat_mult_distrib)
    have e: "int H - 1 - int yn = int (H - 1 - yn)" using yr by simp
    have o2: "nat ((int H - 1 - int yn) * int D + 3 * int xn) = D * (H - 1 - yn) + 3 * xn"
      unfolding e by (simp add: nat_add_distrib nat_mult_distrib mult.commute)
    show ?thesis
      unfolding pixel_at_def x y o1 o2 using px [OF yr xr] by simp
  qed
  then have final: "\<forall>x y. 0 \<le> x \<and> x < mWidth g \<and> 0 \<le> y \<and> y < mHeight g \<longrightarrow>
      length (pixel_at buffer (c_div (int (length buffer)) (mHeight g)) x y) = 3 \<and>
      pixel_at (imgData ?image') (imgStride ?image') x (mHeight g - 1 - y)
        = rev (pixel_at buffer (c_div (int (length buffer)) (mHeight g)) x y)"
    unfolding cd by (simp add: d h)
  show ?thesis
    by (rule exI [of _ ?parent'], rule exI [of _ "g\<lparr>mImage := Some ?image'\<rparr>"],
        rule exI [of _ ?image'])
      (use run final len in simp)
qed

text \<open>C1. Whenever the frame callback runs to its end on both paths, from the same
  state and on the same buffer, the scalar path and the SSSE3 path hand the same image to
  the listener and leave the same image and the same parent state behind: the output bytes
  are identical. (The two conversions are equal as functions, faults included:
  \<open>convert_paths_equal\<close>.)\<close>

theorem BufferCB_paths_agree:
  assumes "BufferCB allocate parent (g\<lparr>mSSSE3supported := False\<rparr>) pBuffer
             = Inr (parent1, g1, image1)"
    and "BufferCB allocate parent (g\<lparr>mSSSE3supported := True\<rparr>) pBuffer
             = Inr (parent2, g2, image2)"
  shows "image1 = image2 \<and> mImage g1 = mImage g2 \<and> parent1 = parent2"
proof -
  have e: "ensure_image allocate (g\<lparr>mSSSE3supported := b\<rparr>) = ensure_image allocate g" for b
    by (simp add: ensure_image_def split: option.splits)
  show ?thesis
    using assms
    by (auto simp: BufferCB_def e convert_paths_equal Let_def sbind_def
        split: option.splits if_splits sum.splits)
qed

section \<open>A frame of 17 by 2 pixels on both paths\<close>

text \<open>One pack of 16 pixels and a tail of one pixel per row, two rows.\<close>

lemma callback_17x2_scalar:
  "BufferCB no_allocate listening_device (grabber_17x2\<lparr>mSSSE3supported := False\<rparr>)
      (Some frame_17x2)
   = Inr (listening_device\<lparr>FramesCounter := 1\<rparr>,
          grabber_17x2\<lparr>mImage := Some image_17x2, mSSSE3supported := False\<rparr>,
          Some image_17x2)"
  by code_simp

lemma callback_17x2_vector:
  "BufferCB no_allocate listening_device (grabber_17x2\<lparr>mSSSE3supported := True\<rparr>)
      (Some frame_17x2)
   = Inr (listening_device\<lparr>FramesCounter := 1\<rparr>,
          grabber_17x2\<lparr>mImage := Some image_17x2, mSSSE3supported := True\<rparr>,
          Some image_17x2)"
  by code_simp

text \<open>Both paths run on that frame, and give the same image.\<close>

theorem BufferCB_paths_agree_witness:
  "BufferCB no_allocate listening_device (grabber_17x2\<lparr>mSSSE3supported := False\<rparr>)
      (Some frame_17x2)
   = Inr (listening_device\<lparr>FramesCounter := 1\<rparr>,
          grabber_17x2\<lparr>mImage := Some image_17x2, mSSSE3supported := False\<rparr>,
          Some image_17x2) \<and>
   BufferCB no_allocate listening_device (grabber_17x2\<lparr>mSSSE3supported := True\<rparr>)
      (Some frame_17x2)
   = Inr (listening_device\<lparr>FramesCounter := 1\<rparr>,
          grabber_17x2\<lparr>mImage := Some image_17x2, mSSSE3supported := True\<rparr>,
          Some image_17x2) \<and>
   mImage (grabber_17x2\<lparr>mImage := Some image_17x2, mSSSE3supported := False\<rparr>)
     = mImage (grabber_17x2\<lparr>mImage := Some image_17x2, mSSSE3supported := True\<rparr>)"
  using callback_17x2_scalar callback_17x2_vector
    BufferCB_paths_agree [OF callback_17x2_scalar callback_17x2_vector]
  by simp

lemma example_17x2:
  "Listener listening_device \<noteq> None" "frame_17x2 \<noteq> []" "0 < mHeight grabber_17x2"
  "3 * mWidth grabber_17x2 \<le> c_div (int (length frame_17x2)) (mHeight grabber_17x2)"
  "ensure_image no_allocate grabber_17x2 = Some blank_17x2"
  "3 * mWidth grabber_17x2 \<le> imgStride blank_17x2"
  "int (length (imgData blank_17x2)) = imgStride blank_17x2 * mHeight grabber_17x2"
  by code_simp+

text \<open>The frame of 17 by 2 pixels meets the conditions of the conversion.\<close>

theorem BufferCB_flips_and_swaps_witness:
  "Listener listening_device \<noteq> None \<and> frame_17x2 \<noteq> [] \<and> 0 < mHeight grabber_17x2 \<and>
   3 * mWidth grabber_17x2 \<le> c_div (int (length frame_17x2)) (mHeight grabber_17x2) \<and>
   ensure_image no_allocate grabber_17x2 = Some blank_17x2 \<and>
   3 * mWidth grabber_17x2 \<le> imgStride blank_17x2 \<and>
   int (length (imgData blank_17x2)) = imgStride blank_17x2 * mHeight grabber_17x2 \<and>
   (\<exists>parent' g' image'.
      BufferCB no_allocate listening_device grabber_17x2 (Some frame_17x2)
        = Inr (parent', g', Some image') \<and>
      mImage g' = Some image' \<and> imgStride image' = imgStride blank_17x2 \<and>
      length (imgData image') = length (imgData blank_17x2) \<and>
      (\<forall>x y. 0 \<le> x \<and> x < mWidth grabber_17x2 \<and> 0 \<le> y \<and> y < mHeight grabber_17x2 \<longrightarrow>
         length (pixel_at frame_17x2
                   (c_div (int (length frame_17x2)) (mHeight grabber_17x2)) x y) = 3 \<and>
         pixel_at (imgData image') (imgStride image') x (mHeight grabber_17x2 - 1 - y)
           = rev (pixel_at frame_17x2
                    (c_div (int (length frame_17x2)) (mHeight grabber_17x2)) x y)))"
  by (intro conjI example_17x2 BufferCB_flips_and_swaps [OF example_17x2])

end
